theory Spec2Isabelle
  imports Main "HOL-Library.Multiset"
begin

section \<open>Python strings\<close>

text \<open>
  A Python \<open>str\<close> is modelled as a \<open>string\<close> whose characters are read as the code
  points U+0000 to U+00FF. The character classes below are Python's for that range.
\<close>

definition isspace_chr :: "char \<Rightarrow> bool" where
  "isspace_chr c =
     (let n = (of_char c :: nat)
      in (9 \<le> n \<and> n \<le> 13) \<or> (28 \<le> n \<and> n \<le> 32) \<or> n = 133 \<or> n = 160)"

definition isdecimal_chr :: "char \<Rightarrow> bool" where
  \<comment> \<open>the regular expression class \<open>\d\<close> and the digits \<open>int()\<close> accepts\<close>
  "isdecimal_chr c = (let n = (of_char c :: nat) in 48 \<le> n \<and> n \<le> 57)"

definition isdigit_chr :: "char \<Rightarrow> bool" where
  \<comment> \<open>\<open>str.isdigit\<close> also holds for the superscript digits U+00B2, U+00B3 and U+00B9\<close>
  "isdigit_chr c =
     (let n = (of_char c :: nat) in (48 \<le> n \<and> n \<le> 57) \<or> n = 178 \<or> n = 179 \<or> n = 185)"

definition lower_chr :: "char \<Rightarrow> char" where
  "lower_chr c =
     (let n = (of_char c :: nat)
      in if (65 \<le> n \<and> n \<le> 90) \<or> (192 \<le> n \<and> n \<le> 222 \<and> n \<noteq> 215)
         then char_of (n + 32) else c)"

definition py_strip :: "string \<Rightarrow> string" where
  "py_strip s = rev (dropWhile isspace_chr (rev (dropWhile isspace_chr s)))"

definition py_lower :: "string \<Rightarrow> string" where
  "py_lower s = map lower_chr s"

definition py_isdigit :: "string \<Rightarrow> bool" where
  "py_isdigit s = (s \<noteq> [] \<and> list_all isdigit_chr s)"

fun py_split :: "char \<Rightarrow> string \<Rightarrow> string list" where
  "py_split sep [] = [[]]"
| "py_split sep (c # cs) =
     (if c = sep then [] # py_split sep cs
      else (case py_split sep cs of
              p # ps \<Rightarrow> (c # p) # ps
            | [] \<Rightarrow> [[c]]))"

definition py_split_whitespace :: "string \<Rightarrow> string list" where
  \<comment> \<open>\<open>str.split()\<close> without a separator: runs of whitespace separate, no empty items\<close>
  "py_split_whitespace s =
     filter (\<lambda>w. w \<noteq> [])
       (foldr (\<lambda>c ws. if isspace_chr c then [] # ws
                       else (case ws of w # r \<Rightarrow> (c # w) # r | [] \<Rightarrow> [[c]])) s [[]])"

fun py_join :: "string \<Rightarrow> string list \<Rightarrow> string" where
  "py_join sep [] = []"
| "py_join sep [x] = x"
| "py_join sep (x # y # ys) = x @ sep @ py_join sep (y # ys)"

definition py_startswith :: "string \<Rightarrow> string \<Rightarrow> bool" where
  "py_startswith s p = (take (length p) s = p)"

fun int_body_ok :: "bool \<Rightarrow> string \<Rightarrow> bool" where
  \<comment> \<open>digits, single underscores only between digits; the flag says the previous
      character was a digit\<close>
  "int_body_ok prev [] = prev"
| "int_body_ok prev (c # cs) =
     (if isdecimal_chr c then int_body_ok True cs
      else if c = CHR ''_'' \<and> prev then int_body_ok False cs
      else False)"

fun digits_value :: "nat \<Rightarrow> string \<Rightarrow> nat" where
  "digits_value acc [] = acc"
| "digits_value acc (c # cs) = digits_value (10 * acc + (of_char c - 48)) cs"

definition py_int :: "string \<Rightarrow> int option" where
  \<comment> \<open>\<open>int(s)\<close> in base 10; \<open>None\<close> stands for the ValueError\<close>
  "py_int s =
     (let t = py_strip s;
          neg = (t \<noteq> [] \<and> hd t = CHR ''-'');
          body = (if t \<noteq> [] \<and> (hd t = CHR ''-'' \<or> hd t = CHR ''+'') then tl t else t)
      in if int_body_ok False body
         then Some ((if neg then - 1 else 1) * int (digits_value 0 (filter isdecimal_chr body)))
         else None)"

section \<open>Configuration (config/settings.py)\<close>

text \<open>
  Names are those of the source. Where two classes have a field of the same name the
  fields carry a prefix: \<open>nc_\<close> for \<open>NodeConfig\<close> (\<open>nc_id\<close> is \<open>NodeConfig.id\<close>),
  \<open>ssh_\<close> for \<open>SSHConfig\<close>, \<open>ec_\<close> for \<open>ExecutionConfig\<close>, \<open>kw_\<close> for the
  keyword arguments of the handshake, and \<open>res_\<close> for the fields of \<open>TaskResult\<close>
  that \<open>Task\<close> has too (\<open>res_retry_count\<close> is \<open>TaskResult.retry_count\<close>). A
  method's leading underscore is dropped.
\<close>

record NodeConfig =
  nc_id :: int
  nc_ip :: string
  nc_name :: string
  nc_enabled :: bool
  nc_username :: "string option"
  nc_password :: "string option"
  nc_port :: "int option"

record SSHConfig =
  ssh_username :: string
  ssh_port :: int
  ssh_timeout :: int
  ssh_key_file :: "string option"
  ssh_password :: "string option"

record ExecutionConfig =
  max_concurrent :: int
  ec_retry_count :: int
  ec_retry_delay :: int
  command_timeout :: int

text \<open>The loaded configuration, as \<open>ConfigManager.load_config\<close> caches it. The logging
  section plays no part in the engine and is left out.\<close>

record Config =
  nodes :: "NodeConfig list"
  ssh :: SSHConfig
  execution :: ExecutionConfig

definition get_nodes :: "Config \<Rightarrow> bool \<Rightarrow> NodeConfig list" where
  "get_nodes config enabled_only =
     (if enabled_only then filter nc_enabled (nodes config) else nodes config)"

definition get_node_by_id :: "Config \<Rightarrow> int \<Rightarrow> NodeConfig option" where
  "get_node_by_id config node_id = find (\<lambda>node. nc_id node = node_id) (get_nodes config False)"

fun get_nodes_by_ids :: "Config \<Rightarrow> int list \<Rightarrow> NodeConfig list" where
  "get_nodes_by_ids config [] = []"
| "get_nodes_by_ids config (node_id # node_ids) =
     (case get_node_by_id config node_id of
        Some node \<Rightarrow> node # get_nodes_by_ids config node_ids
      | None \<Rightarrow> get_nodes_by_ids config node_ids)"

section \<open>Errors\<close>

text \<open>One constructor per place where the program raises, and one for the errors that
  the remote-session library or the operating system raises. The message texts of the source are Chinese; the
  model keeps the interpolated value only.\<close>

datatype ext_error = ExtError string

datatype TaskType =
  SHELL_COMMAND | DOCKER_PULL | DOCKER_BUILD | DOCKER_PUSH | FILE_UPLOAD | FILE_DOWNLOAD

datatype error =
    InvalidIntLiteral string      \<comment> \<open>ValueError of \<open>int()\<close>\<close>
  | MissingCredentials string     \<comment> \<open>ValueError raised in \<open>SSHConnection.connect\<close>\<close>
  | NotConnected string           \<comment> \<open>Exception raised in \<open>SSHConnection.execute_command\<close>\<close>
  | CannotConnect string          \<comment> \<open>Exception raised when \<open>connect()\<close> returned False\<close>
  | UnsupportedTaskType TaskType  \<comment> \<open>Exception raised in \<open>execute_task_on_node\<close>\<close>
  | CreateScriptFailed string     \<comment> \<open>Exception raised after the heredoc step\<close>
  | ChmodFailed string            \<comment> \<open>Exception raised after the chmod step\<close>
  | ScriptFileNotFound string     \<comment> \<open>FileNotFoundError for a missing local script\<close>
  | NegativeSleep                 \<comment> \<open>ValueError of \<open>time.sleep\<close> for a negative length\<close>
  | InvalidMaxWorkers             \<comment> \<open>ValueError of \<open>ThreadPoolExecutor\<close> for a width below 1\<close>
  | NoneHasNoAttribute string     \<comment> \<open>AttributeError of an attribute read on None\<close>
  | Library ext_error             \<comment> \<open>whatever the library or the operating system raised\<close>

definition error_str :: "error \<Rightarrow> string" where
  \<comment> \<open>\<open>str(e)\<close>\<close>
  "error_str e =
     (case e of
        InvalidIntLiteral x \<Rightarrow> ''invalid literal for int() with base 10: '' @ x
      | MissingCredentials name \<Rightarrow> ''no authentication information for node '' @ name
      | NotConnected name \<Rightarrow> ''not connected: node '' @ name
      | CannotConnect name \<Rightarrow> ''cannot connect to node '' @ name
      | UnsupportedTaskType t \<Rightarrow> ''unsupported task type''
      | CreateScriptFailed err \<Rightarrow> ''creating the script file failed: '' @ err
      | ChmodFailed err \<Rightarrow> ''setting the script permission failed: '' @ err
      | ScriptFileNotFound path \<Rightarrow> ''script file does not exist: '' @ path
      | NegativeSleep \<Rightarrow> ''sleep length must be non-negative''
      | InvalidMaxWorkers \<Rightarrow> ''max_workers must be greater than 0''
      | NoneHasNoAttribute a \<Rightarrow> ''NoneType object has no attribute '' @ a
      | Library (ExtError m) \<Rightarrow> m)"

section \<open>Node selection (cli/node_selector.py)\<close>

record NodeSelector =
  all_nodes :: "NodeConfig list"

definition NodeSelector_init :: "Config \<Rightarrow> NodeSelector" where
  "NodeSelector_init config = \<lparr> all_nodes = get_nodes config False \<rparr>"

definition is_range_format :: "string \<Rightarrow> bool" where
  \<comment> \<open>\<open>re.match(r'^\d+-\d+$', part)\<close>; \<open>$\<close> also matches before one final newline\<close>
  "is_range_format part =
     (let a = takeWhile isdecimal_chr part; r = dropWhile isdecimal_chr part
      in a \<noteq> [] \<and> r \<noteq> [] \<and> hd r = CHR ''-'' \<and>
         (let b = takeWhile isdecimal_chr (tl r); t = dropWhile isdecimal_chr (tl r)
          in b \<noteq> [] \<and> (t = [] \<or> t = [CHR 0x0A])))"

definition parse_range :: "NodeSelector \<Rightarrow> string \<Rightarrow> NodeConfig list" where
  "parse_range self range_str =
     (case py_split (CHR ''-'') range_str of
        [start_str, end_str] \<Rightarrow>
          (case (py_int start_str, py_int end_str) of
             (Some s, Some e) \<Rightarrow>
               (let start_id = (if s > e then e else s);
                    end_id = (if s > e then s else e)
                in filter (\<lambda>node. start_id \<le> nc_id node \<and> nc_id node \<le> end_id) (all_nodes self))
           | _ \<Rightarrow> [])
      | _ \<Rightarrow> [])"

definition find_single_node :: "NodeSelector \<Rightarrow> string \<Rightarrow> error + NodeConfig option" where
  "find_single_node self identifier =
     (let by_name_or_ip =
            (case find (\<lambda>node. py_lower (nc_name node) = identifier) (all_nodes self) of
               Some node \<Rightarrow> Some node
             | None \<Rightarrow> find (\<lambda>node. nc_ip node = identifier) (all_nodes self))
      in if py_isdigit identifier
         then (case py_int identifier of
                 None \<Rightarrow> Inl (InvalidIntLiteral identifier)
               | Some node_id \<Rightarrow>
                   (case find (\<lambda>node. nc_id node = node_id) (all_nodes self) of
                      Some node \<Rightarrow> Inr (Some node)
                    | None \<Rightarrow> Inr by_name_or_ip))
         else Inr by_name_or_ip)"

fun select_parts :: "NodeSelector \<Rightarrow> string list \<Rightarrow> NodeConfig list \<Rightarrow> error + NodeConfig list"
where
  "select_parts self [] selected_nodes = Inr selected_nodes"
| "select_parts self (part # parts) selected_nodes =
     (if part = [] then select_parts self parts selected_nodes
      else if CHR ''-'' \<in> set part \<and> is_range_format part
      then select_parts self parts (selected_nodes @ parse_range self part)
      else (case find_single_node self part of
              Inl e \<Rightarrow> Inl e
            | Inr None \<Rightarrow> select_parts self parts selected_nodes
            | Inr (Some node) \<Rightarrow> select_parts self parts (selected_nodes @ [node])))"

fun unique_by_id :: "NodeConfig list \<Rightarrow> int set \<Rightarrow> NodeConfig list \<Rightarrow> NodeConfig list" where
  "unique_by_id [] seen_ids unique_nodes = unique_nodes"
| "unique_by_id (node # rest) seen_ids unique_nodes =
     (if nc_id node \<notin> seen_ids
      then unique_by_id rest (insert (nc_id node) seen_ids) (unique_nodes @ [node])
      else unique_by_id rest seen_ids unique_nodes)"

definition parse_selection :: "Config \<Rightarrow> NodeSelector \<Rightarrow> string \<Rightarrow> error + NodeConfig list"
where
  "parse_selection config self selection =
     (if selection = [] \<or> py_strip selection = [] then Inr (get_nodes config True)
      else
        let selection' = py_lower (py_strip selection)
        in if selection' = ''all'' \<or> selection' = ''all-enabled''
           then Inr (get_nodes config True)
           else if selection' = ''all-disabled''
           then Inr (filter (\<lambda>node. \<not> nc_enabled node) (all_nodes self))
           else if selection' = ''all-all''
           then Inr (all_nodes self)
           else
             (case select_parts self (map py_strip (py_split (CHR '','') selection')) [] of
                Inl e \<Rightarrow> Inl e
              | Inr selected_nodes \<Rightarrow> Inr (unique_by_id selected_nodes {} [])))"

section \<open>The environment\<close>

text \<open>
  What the engine takes from outside (the remote-session library, the clock, the process
  environment, the local file system) is a record of primitives over a world \<open>'w\<close>
  that the model never inspects. A primitive that the source calls inside a
  \<open>try\<close> block may answer with an error; \<open>close()\<close> on a client handle and
  reading the clock do not fail.
\<close>

type_synonym handle = nat

record ConnectArgs =
  kw_hostname :: string
  kw_port :: int
  kw_username :: string
  kw_timeout :: int
  kw_key_filename :: "string option"
  kw_password :: "string option"

record 'w Env =
  time_now :: "'w \<Rightarrow> int"
  time_sleep :: "int \<Rightarrow> 'w \<Rightarrow> 'w"
  getenv_SSH_PASSWORD :: "'w \<Rightarrow> string option"
  expanduser :: "'w \<Rightarrow> string \<Rightarrow> string"
  path_exists :: "'w \<Rightarrow> string \<Rightarrow> bool"
  read_text :: "'w \<Rightarrow> string \<Rightarrow> ext_error + string"
  new_client :: "'w \<Rightarrow> (ext_error + handle) \<times> 'w"
  client_connect :: "handle \<Rightarrow> ConnectArgs \<Rightarrow> 'w \<Rightarrow> ext_error option \<times> 'w"
  client_close :: "handle \<Rightarrow> 'w \<Rightarrow> 'w"
  exec_command :: "handle \<Rightarrow> string \<Rightarrow> int \<Rightarrow> 'w \<Rightarrow> (ext_error + int \<times> string \<times> string) \<times> 'w"
  transport_active :: "handle \<Rightarrow> 'w \<Rightarrow> bool option"

text \<open>
  \<open>time.time()\<close> is read in clock ticks: the engine stores and subtracts time stamps
  and does nothing else with them. \<open>time_sleep\<close> is \<open>time.sleep\<close> for a length that
  is not negative; the callers model the ValueError of a negative length.
  \<open>exec_command\<close> stands for \<open>client.exec_command\<close>, the wait for the exit status
  and the two decoded reads. \<open>transport_active\<close> is \<open>None\<close> when the probe raises.
\<close>

section \<open>Connections and the pool (core/node_manager.py)\<close>

record SSHConnection =
  conn_node :: NodeConfig
  conn_ssh_config :: SSHConfig
  client :: "handle option"
  connected :: bool
  last_activity :: int

text \<open>
  The state of the process: the pool's dictionary \<open>connections\<close> from node id to
  connection object, in insertion order; the connection objects themselves, by address
  (an object stays in the store after the dictionary has dropped it, as it does for
  whoever still holds a reference); the list of the handles on which \<open>close()\<close> has
  been called, which the program does not read and which is kept to state what was
  closed; and the world.
\<close>

record 'w State =
  connections :: "(int \<times> nat) list"
  heap :: "nat \<Rightarrow> SSHConnection"
  next_addr :: nat
  closed :: "handle list"
  world :: 'w

definition truthy :: "string option \<Rightarrow> bool" where
  "truthy x = (case x of None \<Rightarrow> False | Some v \<Rightarrow> v \<noteq> [])"

definition py_or :: "string option \<Rightarrow> string option \<Rightarrow> string option" where
  "py_or a b = (if truthy a then a else b)"

definition resolve_password :: "'w Env \<Rightarrow> SSHConnection \<Rightarrow> 'w \<Rightarrow> error + string" where
  \<comment> \<open>\<open>node.password or ssh_config.password or os.getenv('SSH_PASSWORD')\<close>, then
      \<open>if password: ... else: raise ValueError\<close>\<close>
  "resolve_password env self w =
     (let password = py_or (nc_password (conn_node self))
                       (py_or (ssh_password (conn_ssh_config self)) (getenv_SSH_PASSWORD env w))
      in if truthy password then Inr (the password)
         else Inl (MissingCredentials (nc_name (conn_node self))))"

definition connect_kwargs :: "'w Env \<Rightarrow> SSHConnection \<Rightarrow> 'w \<Rightarrow> error + ConnectArgs" where
  \<comment> \<open>\<open>NodeConfig\<close> declares no \<open>key_file\<close>, so \<open>hasattr(self.node, 'key_file')\<close> is
      false and the key file is the one of the SSH configuration\<close>
  "connect_kwargs env self w =
     (let username = (if truthy (nc_username (conn_node self))
                      then the (nc_username (conn_node self))
                      else ssh_username (conn_ssh_config self));
          port = (case nc_port (conn_node self) of
                    Some p \<Rightarrow> if p \<noteq> 0 then p else ssh_port (conn_ssh_config self)
                  | None \<Rightarrow> ssh_port (conn_ssh_config self));
          kwargs = \<lparr> kw_hostname = nc_ip (conn_node self), kw_port = port,
                     kw_username = username, kw_timeout = ssh_timeout (conn_ssh_config self),
                     kw_key_filename = None, kw_password = None \<rparr>;
          key_file = ssh_key_file (conn_ssh_config self)
      in if truthy key_file
         then (let expanded_key_file = expanduser env w (the key_file)
               in if path_exists env w expanded_key_file
                  then Inr (kwargs\<lparr> kw_key_filename := Some expanded_key_file \<rparr>)
                  else (case resolve_password env self w of
                          Inl e \<Rightarrow> Inl e
                        | Inr password \<Rightarrow> Inr (kwargs\<lparr> kw_password := Some password \<rparr>)))
         else (case resolve_password env self w of
                 Inl e \<Rightarrow> Inl e
               | Inr password \<Rightarrow> Inr (kwargs\<lparr> kw_password := Some password \<rparr>)))"

definition connect_except :: "'w Env \<Rightarrow> nat \<Rightarrow> 'w State \<Rightarrow> (error + bool) \<times> 'w State" where
  \<comment> \<open>the \<open>except Exception\<close> block of \<open>connect\<close>\<close>
  "connect_except env a s =
     (let s1 = s\<lparr> heap := (heap s)(a := (heap s a)\<lparr> connected := False \<rparr>) \<rparr>
      in case client (heap s1 a) of
           Some h \<Rightarrow>
             (Inr False,
              s1\<lparr> heap := (heap s1)(a := (heap s1 a)\<lparr> client := None \<rparr>),
                  closed := closed s1 @ [h],
                  world := client_close env h (world s1) \<rparr>)
         | None \<Rightarrow> (Inr False, s1))"

definition connect :: "'w Env \<Rightarrow> nat \<Rightarrow> 'w State \<Rightarrow> (error + bool) \<times> 'w State" where
  "connect env a s =
     (case new_client env (world s) of
        (Inl e, w1) \<Rightarrow> connect_except env a (s\<lparr> world := w1 \<rparr>)
      | (Inr h, w1) \<Rightarrow>
          (let s1 = s\<lparr> heap := (heap s)(a := (heap s a)\<lparr> client := Some h \<rparr>), world := w1 \<rparr>
           in case connect_kwargs env (heap s1 a) w1 of
                Inl e \<Rightarrow> connect_except env a s1
              | Inr kwargs \<Rightarrow>
                  (case client_connect env h kwargs w1 of
                     (Some e, w2) \<Rightarrow> connect_except env a (s1\<lparr> world := w2 \<rparr>)
                   | (None, w2) \<Rightarrow>
                       (Inr True,
                        s1\<lparr> heap := (heap s1)(a := (heap s1 a)\<lparr> connected := True,
                                                    last_activity := time_now env w2 \<rparr>),
                            world := w2 \<rparr>))))"

definition disconnect :: "'w Env \<Rightarrow> nat \<Rightarrow> 'w State \<Rightarrow> (error + unit) \<times> 'w State" where
  "disconnect env a s =
     (let s1 = (case client (heap s a) of
                  Some h \<Rightarrow>
                    s\<lparr> heap := (heap s)(a := (heap s a)\<lparr> client := None \<rparr>),
                       closed := closed s @ [h],
                       world := client_close env h (world s) \<rparr>
                | None \<Rightarrow> s)
      in (Inr (), s1\<lparr> heap := (heap s1)(a := (heap s1 a)\<lparr> connected := False \<rparr>) \<rparr>))"

definition execute_command ::
  "'w Env \<Rightarrow> nat \<Rightarrow> string \<Rightarrow> int \<Rightarrow> 'w State \<Rightarrow> (error + int \<times> string \<times> string) \<times> 'w State"
where
  "execute_command env a command timeout s =
     (if \<not> connected (heap s a) \<or> client (heap s a) = None
      then (Inl (NotConnected (nc_name (conn_node (heap s a)))), s)
      else (case exec_command env (the (client (heap s a))) command timeout (world s) of
              (Inl e, w1) \<Rightarrow> (Inl (Library e), s\<lparr> world := w1 \<rparr>)
            | (Inr (exit_code, stdout_data, stderr_data), w1) \<Rightarrow>
                (Inr (exit_code, stdout_data, stderr_data),
                 s\<lparr> heap := (heap s)(a := (heap s a)\<lparr> last_activity := time_now env w1 \<rparr>),
                    world := w1 \<rparr>)))"

definition is_alive :: "'w Env \<Rightarrow> nat \<Rightarrow> 'w State \<Rightarrow> bool" where
  "is_alive env a s =
     (if \<not> connected (heap s a) \<or> client (heap s a) = None then False
      else (case transport_active env (the (client (heap s a))) (world s) of
              Some True \<Rightarrow> True
            | _ \<Rightarrow> False))"

definition get_connection :: "'w Env \<Rightarrow> Config \<Rightarrow> NodeConfig \<Rightarrow> 'w State \<Rightarrow> nat \<times> 'w State" where
  "get_connection env config node s =
     (case map_of (connections s) (nc_id node) of
        Some a \<Rightarrow> (a, s)
      | None \<Rightarrow>
          (next_addr s,
           s\<lparr> connections := connections s @ [(nc_id node, next_addr s)],
              heap := (heap s)(next_addr s :=
                        \<lparr> conn_node = node, conn_ssh_config = ssh config, client = None,
                          connected = False, last_activity = time_now env (world s) \<rparr>),
              next_addr := Suc (next_addr s) \<rparr>))"

fun disconnect_each :: "'w Env \<Rightarrow> (int \<times> nat) list \<Rightarrow> 'w State \<Rightarrow> (error + unit) \<times> 'w State" where
  \<comment> \<open>\<open>for connection in self.connections.values(): connection.disconnect()\<close>\<close>
  "disconnect_each env [] s = (Inr (), s)"
| "disconnect_each env ((node_id, a) # rest) s =
     (case disconnect env a s of
        (Inl e, s1) \<Rightarrow> (Inl e, s1)
      | (Inr u, s1) \<Rightarrow> disconnect_each env rest s1)"

definition disconnect_all :: "'w Env \<Rightarrow> 'w State \<Rightarrow> (error + unit) \<times> 'w State" where
  "disconnect_all env s =
     (case disconnect_each env (connections s) s of
        (Inl e, s1) \<Rightarrow> (Inl e, s1)
      | (Inr u, s1) \<Rightarrow> (Inr (), s1\<lparr> connections := [] \<rparr>))"

section \<open>Task execution (core/task_executor.py)\<close>

record TaskResult =
  node_id :: int
  node_name :: string
  node_ip :: string
  res_task_type :: TaskType
  res_command :: string
  success :: bool
  exit_code :: "int option"
  stdout :: string
  stderr :: string
  execution_time :: int
  error_message :: string
  res_retry_count :: int

record Task =
  task_type :: TaskType
  command :: string
  node_ids :: "int list"
  timeout :: int
  retry_count :: int
  retry_delay :: int
  extra_params :: "(string \<times> string) list option"

definition new_result :: "NodeConfig \<Rightarrow> TaskType \<Rightarrow> string \<Rightarrow> TaskResult" where
  \<comment> \<open>the constructor call with \<open>success=False\<close> and the dataclass defaults\<close>
  "new_result node t c =
     \<lparr> node_id = nc_id node, node_name = nc_name node, node_ip = nc_ip node,
       res_task_type = t, res_command = c, success = False, exit_code = None,
       stdout = [], stderr = [], execution_time = 0, error_message = [],
       res_retry_count = 0 \<rparr>"

definition ensure_connected ::
  "'w Env \<Rightarrow> NodeConfig \<Rightarrow> nat \<Rightarrow> 'w State \<Rightarrow> (error + unit) \<times> 'w State"
where
  \<comment> \<open>\<open>if not connection.is_alive(): if not connection.connect(): raise Exception\<close>\<close>
  "ensure_connected env node a s =
     (if is_alive env a s then (Inr (), s)
      else (case connect env a s of
              (Inl e, s1) \<Rightarrow> (Inl e, s1)
            | (Inr ok, s1) \<Rightarrow>
                if ok then (Inr (), s1) else (Inl (CannotConnect (nc_name node)), s1)))"

definition rendered_command :: "Task \<Rightarrow> error + string" where
  \<comment> \<open>the command each branch of \<open>execute_task_on_node\<close> hands to \<open>execute_command\<close>\<close>
  "rendered_command task =
     (case task_type task of
        SHELL_COMMAND \<Rightarrow> Inr (command task)
      | DOCKER_PULL \<Rightarrow> Inr (''docker pull '' @ command task)
      | DOCKER_BUILD \<Rightarrow>
          (let tag = (case extra_params task of
                        None \<Rightarrow> ''latest''
                      | Some params \<Rightarrow>
                          if params = [] then ''latest''
                          else (case map_of params ''tag'' of
                                  Some v \<Rightarrow> v
                                | None \<Rightarrow> ''latest''))
           in Inr (''docker build -t '' @ tag @ '' '' @ command task))
      | DOCKER_PUSH \<Rightarrow> Inr (''docker push '' @ command task)
      | FILE_UPLOAD \<Rightarrow> Inl (UnsupportedTaskType FILE_UPLOAD)
      | FILE_DOWNLOAD \<Rightarrow> Inl (UnsupportedTaskType FILE_DOWNLOAD))"

definition task_try ::
  "'w Env \<Rightarrow> Config \<Rightarrow> NodeConfig \<Rightarrow> Task \<Rightarrow> 'w State \<Rightarrow> (error + int \<times> string \<times> string) \<times> 'w State"
where
  \<comment> \<open>the \<open>try\<close> block of \<open>execute_task_on_node\<close>\<close>
  "task_try env config node task s =
     (case get_connection env config node s of
        (a, s1) \<Rightarrow>
          (case ensure_connected env node a s1 of
             (Inl e, s2) \<Rightarrow> (Inl e, s2)
           | (Inr u, s2) \<Rightarrow>
               (case rendered_command task of
                  Inl e \<Rightarrow> (Inl e, s2)
                | Inr c \<Rightarrow> execute_command env a c (timeout task) s2)))"

definition execute_task_on_node ::
  "'w Env \<Rightarrow> Config \<Rightarrow> NodeConfig \<Rightarrow> Task \<Rightarrow> 'w State \<Rightarrow> TaskResult \<times> 'w State"
where
  "execute_task_on_node env config node task s =
     (let start_time = time_now env (world s);
          result = new_result node (task_type task) (command task)
      in case task_try env config node task s of
           (Inr (code, out, err), s1) \<Rightarrow>
             (result\<lparr> exit_code := Some code, stdout := out, stderr := err,
                      success := (code = 0),
                      execution_time := time_now env (world s1) - start_time \<rparr>, s1)
         | (Inl e, s1) \<Rightarrow>
             (result\<lparr> error_message := error_str e,
                      execution_time := time_now env (world s1) - start_time \<rparr>, s1))"

function retry_loop ::
  "'w Env \<Rightarrow> Config \<Rightarrow> NodeConfig \<Rightarrow> Task \<Rightarrow> int \<Rightarrow> TaskResult option \<Rightarrow> 'w State
     \<Rightarrow> (error + TaskResult option) \<times> 'w State"
where
  "retry_loop env config node task attempt last_result s =
     (if attempt < retry_count task + 1
      then (case execute_task_on_node env config node task s of
              (r, s1) \<Rightarrow>
                (let result = r\<lparr> res_retry_count := attempt \<rparr>
                 in if success result then (Inr (Some result), s1)
                    else if attempt < retry_count task
                    then (if retry_delay task < 0 then (Inl NegativeSleep, s1)
                          else retry_loop env config node task (attempt + 1) (Some result)
                                 (s1\<lparr> world := time_sleep env (retry_delay task) (world s1) \<rparr>))
                    else retry_loop env config node task (attempt + 1) (Some result) s1))
      else (Inr last_result, s))"
  by pat_completeness auto
termination
  by (relation "measure (\<lambda>(env, config, node, task, attempt, last_result, s).
                  nat (retry_count task + 1 - attempt))") auto

definition execute_task_with_retry ::
  "'w Env \<Rightarrow> Config \<Rightarrow> NodeConfig \<Rightarrow> Task \<Rightarrow> 'w State \<Rightarrow> (error + TaskResult option) \<times> 'w State"
where
  \<comment> \<open>\<open>for attempt in range(task.retry_count + 1)\<close>, starting with \<open>last_result = None\<close>\<close>
  "execute_task_with_retry env config node task s = retry_loop env config node task 0 None s"

text \<open>
  The worker pool. The model runs the submitted workers one after another, in the order of
  submission, each to its end (what a pool of width 1 does); \<open>as_completed\<close> then hands
  the finished futures to the collecting loop in an order that the scheduler \<open>sched\<close>
  chooses: at step \<open>k\<close> it takes the pending future at index \<open>sched k mod n\<close>.
\<close>

fun run_workers ::
  "'w Env \<Rightarrow> Config \<Rightarrow> Task \<Rightarrow> NodeConfig list \<Rightarrow> 'w State
     \<Rightarrow> (NodeConfig \<times> (error + TaskResult option)) list \<times> 'w State"
where
  "run_workers env config task [] s = ([], s)"
| "run_workers env config task (node # rest) s =
     (case execute_task_with_retry env config node task s of
        (outcome, s1) \<Rightarrow>
          (case run_workers env config task rest s1 of
             (futures, s2) \<Rightarrow> ((node, outcome) # futures, s2)))"

function as_completed :: "(nat \<Rightarrow> nat) \<Rightarrow> nat \<Rightarrow> 'a list \<Rightarrow> 'a list" where
  "as_completed sched k pending =
     (if pending = [] then []
      else (let i = sched k mod length pending
            in pending ! i # as_completed sched (Suc k) (take i pending @ drop (Suc i) pending)))"
  by pat_completeness auto
termination
proof (relation "measure (\<lambda>(sched, k, pending). length pending)")
  fix sched :: "nat \<Rightarrow> nat" and k :: nat and pending :: "'a list" and i :: nat
  assume "pending \<noteq> []" and "i = sched k mod length pending"
  then have "i < length pending" by simp
  then show "((sched, Suc k, take i pending @ drop (Suc i) pending), (sched, k, pending))
               \<in> measure (\<lambda>(sched, k, pending). length pending)"
    by simp
qed simp

definition collect_future ::
  "Task \<Rightarrow> NodeConfig \<times> (error + TaskResult option) \<Rightarrow> TaskResult option list"
where
  \<comment> \<open>one turn of the collecting loop: what it appends to \<open>results\<close>. A worker that
      returned None is appended as it is, then reading its \<open>success\<close> raises, and the
      handler appends the error result\<close>
  "collect_future task f =
     (case f of
        (node, Inr (Some result)) \<Rightarrow> [Some result]
      | (node, Inr None) \<Rightarrow>
          [None,
           Some ((new_result node (task_type task) (command task))
                   \<lparr> error_message := error_str (NoneHasNoAttribute ''success'') \<rparr>)]
      | (node, Inl e) \<Rightarrow>
          [Some ((new_result node (task_type task) (command task))
                   \<lparr> error_message := error_str e \<rparr>)])"

definition target_nodes :: "Config \<Rightarrow> Task \<Rightarrow> NodeConfig list" where
  "target_nodes config task =
     (if node_ids task = [] then get_nodes config True
      else get_nodes_by_ids config (node_ids task))"

fun success_count :: "TaskResult option list \<Rightarrow> error + nat" where
  \<comment> \<open>\<open>sum(1 for r in results if r.success)\<close>, which reads \<open>success\<close> of every entry
      outside any \<open>try\<close>\<close>
  "success_count [] = Inr 0"
| "success_count (None # rest) = Inl (NoneHasNoAttribute ''success'')"
| "success_count (Some r # rest) =
     (case success_count rest of
        Inl e \<Rightarrow> Inl e
      | Inr n \<Rightarrow> Inr (if success r then Suc n else n))"

definition execute_task ::
  "'w Env \<Rightarrow> Config \<Rightarrow> (nat \<Rightarrow> nat) \<Rightarrow> Task \<Rightarrow> 'w State
     \<Rightarrow> (error + TaskResult option list) \<times> 'w State"
where
  "execute_task env config sched task s =
     (let nodes = target_nodes config task
      in if nodes = [] then (Inr [], s)
         else if min (int (length nodes)) (max_concurrent (execution config)) \<le> 0
         then (Inl InvalidMaxWorkers, s)
         else (case run_workers env config task nodes s of
                 (futures, s1) \<Rightarrow>
                   (let results = concat (map (collect_future task) (as_completed sched 0 futures))
                    in case success_count results of
                         Inl e \<Rightarrow> (Inl e, s1)
                       | Inr successes \<Rightarrow> (Inr results, s1))))"

definition execute_shell_command ::
  "'w Env \<Rightarrow> Config \<Rightarrow> (nat \<Rightarrow> nat) \<Rightarrow> string \<Rightarrow> int list option \<Rightarrow> int \<Rightarrow> 'w State
     \<Rightarrow> (error + TaskResult option list) \<times> 'w State"
where
  "execute_shell_command env config sched c ids tmo s =
     execute_task env config sched
       \<lparr> task_type = SHELL_COMMAND, command = c,
         node_ids = (case ids of None \<Rightarrow> [] | Some l \<Rightarrow> l), timeout = tmo,
         retry_count = ec_retry_count (execution config),
         retry_delay = ec_retry_delay (execution config), extra_params = None \<rparr> s"

section \<open>Script execution (core/script_executor.py)\<close>

definition py_basename :: "string \<Rightarrow> string" where
  \<comment> \<open>\<open>os.path.basename\<close>: what follows the last slash\<close>
  "py_basename p = rev (takeWhile (\<lambda>c. c \<noteq> CHR ''/'') (rev p))"

definition splitext_ext :: "string \<Rightarrow> string" where
  \<comment> \<open>\<open>os.path.splitext(p)[1]\<close>: from the last dot of the base name on, unless only
      dots precede it there\<close>
  "splitext_ext p =
     (let b = py_basename p;
          e = rev (takeWhile (\<lambda>c. c \<noteq> CHR ''.'') (rev b));
          stem = take (length b - length e - 1) b
      in if CHR ''.'' \<in> set b \<and> list_ex (\<lambda>c. c \<noteq> CHR ''.'') stem then CHR ''.'' # e else [])"

definition script_execute_command :: "string \<Rightarrow> string \<Rightarrow> string \<Rightarrow> string" where
  \<comment> \<open>step 3 of \<open>_execute_script_on_node\<close>: the command of the run step\<close>
  "script_execute_command remote_script_path script_content args =
     (let script_extension = py_lower (splitext_ext remote_script_path)
      in if script_extension = ''.py''
         then ''python3 '' @ remote_script_path @ '' '' @ args
         else if py_startswith script_content ''#!/usr/bin/env python''
                 \<or> py_startswith script_content ''#!/usr/bin/python''
         then ''python3 '' @ remote_script_path @ '' '' @ args
         else if script_extension \<in> set [''.sh'', ''.bash'']
                 \<or> py_startswith script_content ''#!/bin/bash''
                 \<or> py_startswith script_content ''#!/usr/bin/bash''
         then ''bash '' @ remote_script_path @ '' '' @ args
         else if py_startswith script_content ''#!''
         then remote_script_path @ '' '' @ args
         else ''bash '' @ remote_script_path @ '' '' @ args)"

definition create_script_command :: "string \<Rightarrow> string \<Rightarrow> string" where
  "create_script_command remote_script_path script_content =
     [CHR 0x0A] @ ''cat > '' @ remote_script_path @ '' << '' @ [CHR 0x27] @ ''EOF'' @ [CHR 0x27]
       @ [CHR 0x0A] @ script_content @ [CHR 0x0A] @ ''EOF'' @ [CHR 0x0A]"

definition script_try ::
  "'w Env \<Rightarrow> Config \<Rightarrow> NodeConfig \<Rightarrow> string \<Rightarrow> string \<Rightarrow> string \<Rightarrow> int \<Rightarrow> TaskResult \<Rightarrow> 'w State
     \<Rightarrow> (error option \<times> TaskResult) \<times> 'w State"
where
  \<comment> \<open>the \<open>try\<close> block of \<open>_execute_script_on_node\<close>: the error it ends with, if any,
      and the result object as it stands then\<close>
  "script_try env config node script_content remote_script_path args tmo result s =
     (case get_connection env config node s of
        (a, s1) \<Rightarrow>
     (case ensure_connected env node a s1 of
        (Inl e, s2) \<Rightarrow> ((Some e, result), s2)
      | (Inr u, s2) \<Rightarrow>
     (case execute_command env a (create_script_command remote_script_path script_content) 30 s2 of
        (Inl e, s3) \<Rightarrow> ((Some e, result), s3)
      | (Inr (code1, out1, err1), s3) \<Rightarrow>
          if code1 \<noteq> 0 then ((Some (CreateScriptFailed err1), result), s3)
          else
     (case execute_command env a (''chmod +x '' @ remote_script_path) 10 s3 of
        (Inl e, s4) \<Rightarrow> ((Some e, result), s4)
      | (Inr (code2, out2, err2), s4) \<Rightarrow>
          if code2 \<noteq> 0 then ((Some (ChmodFailed err2), result), s4)
          else
     (case execute_command env a
             (script_execute_command remote_script_path script_content args) tmo s4 of
        (Inl e, s5) \<Rightarrow> ((Some e, result), s5)
      | (Inr (code3, out3, err3), s5) \<Rightarrow>
          (let result' = result\<lparr> exit_code := Some code3, stdout := out3, stderr := err3,
                                  success := (code3 = 0) \<rparr>
           in case execute_command env a (''rm -f '' @ remote_script_path) 10 s5 of
                (Inl e, s6) \<Rightarrow> ((Some e, result'), s6)
              | (Inr cleanup, s6) \<Rightarrow> ((None, result'), s6)))))))"

definition execute_script_on_node ::
  "'w Env \<Rightarrow> Config \<Rightarrow> NodeConfig \<Rightarrow> string \<Rightarrow> string \<Rightarrow> string \<Rightarrow> int \<Rightarrow> 'w State
     \<Rightarrow> TaskResult \<times> 'w State"
where
  "execute_script_on_node env config node script_content remote_script_path args tmo s =
     (let start_time = time_now env (world s);
          result = new_result node SHELL_COMMAND
                     (''run script: '' @ remote_script_path @ '' '' @ args)
      in case script_try env config node script_content remote_script_path args tmo result s of
           ((None, r), s1) \<Rightarrow>
             (r\<lparr> execution_time := time_now env (world s1) - start_time \<rparr>, s1)
         | ((Some e, r), s1) \<Rightarrow>
             (r\<lparr> error_message := error_str e,
                 execution_time := time_now env (world s1) - start_time \<rparr>, s1))"

fun script_on_nodes ::
  "'w Env \<Rightarrow> Config \<Rightarrow> NodeConfig list \<Rightarrow> string \<Rightarrow> string \<Rightarrow> string \<Rightarrow> int \<Rightarrow> 'w State
     \<Rightarrow> TaskResult list \<times> 'w State"
where
  \<comment> \<open>\<open>for node in nodes: results.append(self._execute_script_on_node(...))\<close>\<close>
  "script_on_nodes env config [] script_content remote_script_path args tmo s = ([], s)"
| "script_on_nodes env config (node # rest) script_content remote_script_path args tmo s =
     (case execute_script_on_node env config node script_content remote_script_path args tmo s of
        (result, s1) \<Rightarrow>
          (case script_on_nodes env config rest script_content remote_script_path args tmo s1 of
             (results, s2) \<Rightarrow> (result # results, s2)))"

definition script_target_nodes :: "Config \<Rightarrow> int list option \<Rightarrow> NodeConfig list" where
  \<comment> \<open>\<open>if node_ids is None: get_nodes() else: get_nodes_by_ids(node_ids)\<close>\<close>
  "script_target_nodes config ids =
     (case ids of None \<Rightarrow> get_nodes config True | Some l \<Rightarrow> get_nodes_by_ids config l)"

definition execute_script_content ::
  "'w Env \<Rightarrow> Config \<Rightarrow> string \<Rightarrow> int list option \<Rightarrow> string \<Rightarrow> int \<Rightarrow> string \<Rightarrow> 'w State
     \<Rightarrow> (error + TaskResult list) \<times> 'w State"
where
  "execute_script_content env config script_content ids args tmo script_name s =
     (case script_on_nodes env config (script_target_nodes config ids) script_content
             (''/tmp/'' @ script_name) args tmo s of
        (results, s1) \<Rightarrow> (Inr results, s1))"

definition upload_and_execute_script ::
  "'w Env \<Rightarrow> Config \<Rightarrow> string \<Rightarrow> int list option \<Rightarrow> string \<Rightarrow> int \<Rightarrow> string \<Rightarrow> 'w State
     \<Rightarrow> (error + TaskResult list) \<times> 'w State"
where
  "upload_and_execute_script env config script_path ids args tmo remote_path s =
     (if \<not> path_exists env (world s) script_path
      then (Inl (ScriptFileNotFound script_path), s)
      else (case read_text env (world s) script_path of
              Inl e \<Rightarrow> (Inl (Library e), s)
            | Inr script_content \<Rightarrow>
                (case script_on_nodes env config (script_target_nodes config ids) script_content
                        (remote_path @ ''/'' @ py_basename script_path) args tmo s of
                   (results, s1) \<Rightarrow> (Inr results, s1))))"

definition local_script_command :: "string \<Rightarrow> string \<Rightarrow> string" where
  \<comment> \<open>the command \<open>execute_local_script_remotely\<close> builds from the text it read\<close>
  "local_script_command text args =
     (let script_content = py_strip text
      in if args \<noteq> []
         then (let args_list = py_split_whitespace args;
                   escaped_args = map (\<lambda>arg. [CHR 0x22] @ arg @ [CHR 0x22]) args_list;
                   param_setup = ''set -- '' @ py_join '' '' escaped_args
               in param_setup @ [CHR 0x0A] @ script_content)
         else script_content)"

definition execute_local_script_remotely ::
  "'w Env \<Rightarrow> Config \<Rightarrow> (nat \<Rightarrow> nat) \<Rightarrow> string \<Rightarrow> int list option \<Rightarrow> string \<Rightarrow> int \<Rightarrow> 'w State
     \<Rightarrow> (error + TaskResult option list) \<times> 'w State"
where
  "execute_local_script_remotely env config sched script_path ids args tmo s =
     (if \<not> path_exists env (world s) script_path
      then (Inl (ScriptFileNotFound script_path), s)
      else (case read_text env (world s) script_path of
              Inl e \<Rightarrow> (Inl (Library e), s)
            | Inr text \<Rightarrow>
                execute_shell_command env config sched (local_script_command text args)
                  ids tmo s))"

section \<open>Specification-level notions\<close>

text \<open>
  The specification's reading of a selection expression, written from its words and not
  from the loops of \<open>parse_selection\<close>: every comma-separated token produces a list of
  nodes, the lists are concatenated in encounter order, and of the nodes that share an id
  the first occurrence is kept.
\<close>

definition token_nodes :: "NodeSelector \<Rightarrow> string \<Rightarrow> error + NodeConfig list" where
  "token_nodes self part =
     (if part = [] then Inr []
      else if CHR ''-'' \<in> set part \<and> is_range_format part then Inr (parse_range self part)
      else (case find_single_node self part of
              Inl e \<Rightarrow> Inl e
            | Inr None \<Rightarrow> Inr []
            | Inr (Some node) \<Rightarrow> Inr [node]))"

fun concat_tokens :: "NodeSelector \<Rightarrow> string list \<Rightarrow> error + NodeConfig list" where
  "concat_tokens self [] = Inr []"
| "concat_tokens self (part # parts) =
     (case token_nodes self part of
        Inl e \<Rightarrow> Inl e
      | Inr xs \<Rightarrow> (case concat_tokens self parts of Inl e \<Rightarrow> Inl e | Inr ys \<Rightarrow> Inr (xs @ ys)))"

definition produced_nodes :: "Config \<Rightarrow> NodeSelector \<Rightarrow> string \<Rightarrow> error + NodeConfig list" where
  "produced_nodes config self selection =
     (let e = py_lower (py_strip selection)
      in if e = [] \<or> e = ''all'' \<or> e = ''all-enabled'' then Inr (filter nc_enabled (nodes config))
         else if e = ''all-disabled'' then Inr (filter (\<lambda>n. \<not> nc_enabled n) (all_nodes self))
         else if e = ''all-all'' then Inr (all_nodes self)
         else concat_tokens self (map py_strip (py_split (CHR '','') e)))"

fun first_occurrences :: "NodeConfig list \<Rightarrow> NodeConfig list" where
  "first_occurrences [] = []"
| "first_occurrences (x # xs) = x # first_occurrences (filter (\<lambda>y. nc_id y \<noteq> nc_id x) xs)"

definition keyword_selection :: "string \<Rightarrow> bool" where
  \<comment> \<open>the expression is blank or one of the exact keywords\<close>
  "keyword_selection selection =
     (let e = py_lower (py_strip selection)
      in e = [] \<or> e = ''all'' \<or> e = ''all-enabled'' \<or> e = ''all-disabled'' \<or> e = ''all-all'')"

definition python_shebang :: "string \<Rightarrow> bool" where
  "python_shebang script_content =
     (py_startswith script_content ''#!/usr/bin/env python''
      \<or> py_startswith script_content ''#!/usr/bin/python'')"

definition bash_shebang :: "string \<Rightarrow> bool" where
  "bash_shebang script_content =
     (py_startswith script_content ''#!/bin/bash''
      \<or> py_startswith script_content ''#!/usr/bin/bash'')"

definition exit_zero :: "error + int \<times> string \<times> string \<Rightarrow> bool" where
  \<comment> \<open>the command returned, with exit code 0\<close>
  "exit_zero r = (case r of Inr (code, out, err) \<Rightarrow> code = 0 | Inl e \<Rightarrow> False)"

definition run_step_reached ::
  "'w Env \<Rightarrow> Config \<Rightarrow> NodeConfig \<Rightarrow> string \<Rightarrow> string \<Rightarrow> 'w State \<Rightarrow> bool"
where
  \<comment> \<open>staged execution gets to its run step: the connection is there and the two steps
      before it, writing the file and setting it executable, exit with 0\<close>
  "run_step_reached env config node script_content remote_script_path s =
     (case get_connection env config node s of
        (a, s1) \<Rightarrow>
          (let c = ensure_connected env node a s1;
               e1 = execute_command env a
                      (create_script_command remote_script_path script_content) 30 (snd c);
               e2 = execute_command env a (''chmod +x '' @ remote_script_path) 10 (snd e1)
           in fst c = Inr () \<and> exit_zero (fst e1) \<and> exit_zero (fst e2)))"

definition run_step_state ::
  "'w Env \<Rightarrow> Config \<Rightarrow> NodeConfig \<Rightarrow> string \<Rightarrow> string \<Rightarrow> 'w State \<Rightarrow> 'w State"
where
  \<comment> \<open>the state in which the run step starts\<close>
  "run_step_state env config node script_content remote_script_path s =
     (case get_connection env config node s of
        (a, s1) \<Rightarrow>
          (let c = ensure_connected env node a s1;
               e1 = execute_command env a
                      (create_script_command remote_script_path script_content) 30 (snd c)
           in snd (execute_command env a (''chmod +x '' @ remote_script_path) 10 (snd e1))))"



fun script_state ::
  "'w Env \<Rightarrow> Config \<Rightarrow> NodeConfig list \<Rightarrow> string \<Rightarrow> string \<Rightarrow> string \<Rightarrow> int \<Rightarrow> nat \<Rightarrow> 'w State
     \<Rightarrow> 'w State"
where
  "script_state env config ns script_content remote_script_path args tmo 0 s = s"
| "script_state env config ns script_content remote_script_path args tmo (Suc i) s =
     snd (execute_script_on_node env config (ns ! i) script_content remote_script_path args tmo
            (script_state env config ns script_content remote_script_path args tmo i s))"

definition in_node_order ::
  "'w Env \<Rightarrow> Config \<Rightarrow> NodeConfig list \<Rightarrow> string \<Rightarrow> string \<Rightarrow> string \<Rightarrow> int
     \<Rightarrow> 'w State \<Rightarrow> TaskResult list \<Rightarrow> 'w State \<Rightarrow> bool"
where
  \<comment> \<open>the results \<open>rs\<close> and the final state \<open>s'\<close> are those of running the staged
      script on the nodes \<open>ns\<close> one after another from state \<open>s\<close>, in the order of
      \<open>ns\<close>\<close>
  "in_node_order env config ns script_content remote_script_path args tmo s rs s' =
     (length rs = length ns
      \<and> map node_id rs = map nc_id ns
      \<and> (\<forall>i < length ns.
            rs ! i = fst (execute_script_on_node env config (ns ! i) script_content
                            remote_script_path args tmo
                            (script_state env config ns script_content remote_script_path
                               args tmo i s)))
      \<and> s' = script_state env config ns script_content remote_script_path args tmo
                (length ns) s)"

definition good_future :: "NodeConfig \<times> (error + TaskResult option) \<Rightarrow> bool" where
  \<comment> \<open>a finished worker that raised, or returned a result for its own node\<close>
  "good_future f =
     (case f of
        (node, Inl e) \<Rightarrow> True
      | (node, Inr None) \<Rightarrow> False
      | (node, Inr (Some r)) \<Rightarrow> node_id r = nc_id node)"

section \<open>A small concrete fleet\<close>

text \<open>
  An environment to run the model in: the world is the list of the commands executed so
  far, which is also the clock; a host is reachable or not, a command's exit status
  depends on its text, and the local files are an association list.
\<close>

definition sim_env ::
  "(string \<Rightarrow> bool) \<Rightarrow> (string \<Rightarrow> int) \<Rightarrow> (string \<times> string) list \<Rightarrow> string list Env"
where
  "sim_env reachable exit_of files =
     \<lparr> time_now = (\<lambda>w. int (length w)),
       time_sleep = (\<lambda>d w. w),
       getenv_SSH_PASSWORD = (\<lambda>w. Some ''secret''),
       expanduser = (\<lambda>w p. p),
       path_exists = (\<lambda>w p. map_of files p \<noteq> None),
       read_text = (\<lambda>w p. case map_of files p of
                             Some t \<Rightarrow> Inr t
                           | None \<Rightarrow> Inl (ExtError ''no such file'')),
       new_client = (\<lambda>w. (Inr 0, w)),
       client_connect = (\<lambda>h kw w. (if reachable (kw_hostname kw) then None
                                       else Some (ExtError ''unreachable''), w)),
       client_close = (\<lambda>h w. w),
       exec_command = (\<lambda>h c t w. (Inr (exit_of c, c, []), w @ [c])),
       transport_active = (\<lambda>h w. Some True) \<rparr>"

definition sim_node :: "int \<Rightarrow> string \<Rightarrow> bool \<Rightarrow> NodeConfig" where
  "sim_node i a e =
     \<lparr> nc_id = i, nc_ip = a, nc_name = ''node-'' @ a, nc_enabled = e,
       nc_username = None, nc_password = None, nc_port = None \<rparr>"

definition sim_config :: "NodeConfig list \<Rightarrow> Config" where
  "sim_config ns =
     \<lparr> nodes = ns,
       ssh = \<lparr> ssh_username = ''root'', ssh_port = 22, ssh_timeout = 30,
               ssh_key_file = None, ssh_password = None \<rparr>,
       execution = \<lparr> max_concurrent = 10, ec_retry_count = 3, ec_retry_delay = 5,
                     command_timeout = 300 \<rparr> \<rparr>"

definition sim_state :: "string list State" where
  \<comment> \<open>an empty pool; the object store holds a placeholder at the addresses not yet used\<close>
  "sim_state =
     \<lparr> connections = [],
       heap = (\<lambda>a. \<lparr> conn_node = sim_node 0 [] False, conn_ssh_config = ssh (sim_config []),
                      client = None, connected = False, last_activity = 0 \<rparr>),
       next_addr = 0, closed = [], world = [] \<rparr>"

definition sim_fleet :: Config where
  "sim_fleet =
     sim_config [sim_node 0 ''10.0.0.10'' True, sim_node 1 ''10.0.0.11'' False,
                 sim_node 2 ''10.0.0.12'' True, sim_node 3 ''10.0.0.13'' True,
                 sim_node 4 ''10.0.0.14'' False, sim_node 5 ''10.0.0.15'' True,
                 sim_node 10 ''10.0.0.20'' True]"

definition twin_fleet :: Config where
  \<comment> \<open>a configuration with two nodes of id 1\<close>
  "twin_fleet = sim_config [sim_node 1 ''10.0.0.11'' True, sim_node 1 ''10.0.0.12'' True]"

definition node2 :: NodeConfig where
  "node2 = sim_node 2 ''10.0.0.12'' True"

definition always_up :: "string list Env" where
  \<comment> \<open>every host is reachable and every command exits with 0\<close>
  "always_up = sim_env (\<lambda>host. True) (\<lambda>c. 0) [(''/opt/deploy.sh'', '' echo $1 $2 '' @ [CHR 0x0A])]"

definition never_up :: "string list Env" where
  \<comment> \<open>no host is reachable\<close>
  "never_up = sim_env (\<lambda>host. False) (\<lambda>c. 0) []"

definition exit_one :: "string list Env" where
  \<comment> \<open>every host is reachable and every command exits with 1\<close>
  "exit_one = sim_env (\<lambda>host. True) (\<lambda>c. 1) []"

definition sim_one :: "string list State" where
  \<comment> \<open>the pool after the first reference to node 2: one connection object, not connected\<close>
  "sim_one = snd (get_connection always_up sim_fleet node2 sim_state)"

definition sim_conn :: "string list State" where
  \<comment> \<open>the same pool after a successful \<open>connect\<close>\<close>
  "sim_conn = snd (connect always_up 0 sim_one)"

definition sim_task :: "int list \<Rightarrow> int \<Rightarrow> int \<Rightarrow> Task" where
  \<comment> \<open>the shell command \<open>echo hi\<close> for the given nodes, retry count and retry delay\<close>
  "sim_task ids rc rd =
     \<lparr> task_type = SHELL_COMMAND, command = ''echo hi'', node_ids = ids, timeout = 300,
       retry_count = rc, retry_delay = rd, extra_params = None \<rparr>"

definition sh_script :: string where
  "sh_script = ''#!/bin/sh'' @ [CHR 0x0A] @ ''echo hi''"

definition set_foo_bar :: string where
  \<comment> \<open>the line \<open>set -- "foo" "bar"\<close>\<close>
  "set_foo_bar = ''set -- '' @ [CHR 0x22] @ ''foo'' @ [CHR 0x22] @ '' '' @ [CHR 0x22] @ ''bar'' @ [CHR 0x22]"

section \<open>Properties of node selection\<close>

lemma set_first_occurrences: "set (first_occurrences xs) \<subseteq> set xs"
  by (induction xs rule: first_occurrences.induct) auto

lemma distinct_first_occurrences: "distinct (map nc_id (first_occurrences xs))"
proof (induction xs rule: first_occurrences.induct)
  case 1
  then show ?case by simp
next
  case (2 x xs)
  have "nc_id x \<notin> nc_id ` set (first_occurrences (filter (\<lambda>y. nc_id y \<noteq> nc_id x) xs))"
    using set_first_occurrences [of "filter (\<lambda>y. nc_id y \<noteq> nc_id x) xs"] by auto
  with 2 show ?case by simp
qed

lemma first_occurrences_distinct: "distinct (map nc_id xs) \<Longrightarrow> first_occurrences xs = xs"
proof (induction xs)
  case Nil
  then show ?case by simp
next
  case (Cons x xs)
  from Cons.prems have "nc_id x \<notin> nc_id ` set xs" by simp
  then have "\<forall>y \<in> set xs. nc_id y \<noteq> nc_id x" by (metis imageI)
  then have "filter (\<lambda>y. nc_id y \<noteq> nc_id x) xs = xs"
    by (simp add: filter_id_conv)
  with Cons show ?case by simp
qed

lemma unique_by_id_first_occurrences:
  "unique_by_id xs seen acc = acc @ first_occurrences (filter (\<lambda>y. nc_id y \<notin> seen) xs)"
proof (induction xs arbitrary: seen acc)
  case Nil
  then show ?case by simp
next
  case (Cons x xs)
  have "filter (\<lambda>y. nc_id y \<noteq> nc_id x) (filter (\<lambda>y. nc_id y \<notin> seen) xs)
          = filter (\<lambda>y. nc_id y \<notin> insert (nc_id x) seen) xs"
    by (induction xs) auto
  with Cons show ?case by simp
qed

lemma select_parts_concat:
  "select_parts self parts acc = Inr r \<Longrightarrow> \<exists>ys. concat_tokens self parts = Inr ys \<and> r = acc @ ys"
proof (induction parts arbitrary: acc)
  case Nil
  then show ?case by simp
next
  case (Cons part parts)
  then show ?case
    by (fastforce simp: token_nodes_def split: if_splits sum.splits option.splits)
qed

lemma py_lower_Nil: "py_lower s = [] \<longleftrightarrow> s = []"
  by (simp add: py_lower_def)

text \<open>
  C5, as the code has it. For an expression that is neither blank nor a keyword, and for
  every node list, the list that \<open>parse_selection\<close> returns has no two nodes with the
  same id, and it is the list of the nodes the tokens produce, in encounter order, with
  the first occurrence of every id kept and the later ones dropped; it is not sorted. For
  a blank or keyword expression the list is what the keyword produces, in the order of
  the configuration and as it is: it has no two nodes with the same id when the ids of
  the configuration are unique.
\<close>

theorem parse_selection_first_occurrences:
  assumes "parse_selection config (NodeSelector_init config) selection = Inr ns"
  shows "\<exists>produced. produced_nodes config (NodeSelector_init config) selection = Inr produced
           \<and> (if keyword_selection selection
               then ns = produced
                    \<and> (distinct (map nc_id (nodes config))
                          \<longrightarrow> distinct (map nc_id ns) \<and> ns = first_occurrences produced)
               else ns = first_occurrences produced \<and> distinct (map nc_id ns))"
proof -
  let ?self = "NodeSelector_init config"
  let ?e = "py_lower (py_strip selection)"
  have all: "all_nodes ?self = nodes config"
    by (simp add: NodeSelector_init_def get_nodes_def)
  have strip_Nil: "py_strip [] = []" by (simp add: py_strip_def)
  have keyword: ?thesis
    if k: "keyword_selection selection"
      and p: "produced_nodes config ?self selection = Inr ns"
      and f: "ns = filter P (nodes config)" for P
  proof -
    have "distinct (map nc_id (nodes config))
            \<longrightarrow> distinct (map nc_id ns) \<and> ns = first_occurrences ns"
      using f first_occurrences_distinct [of ns] by (simp add: distinct_map_filter)
    with k p show ?thesis by simp
  qed
  consider (blank) "py_strip selection = []"
    | (enabled) "py_strip selection \<noteq> []" "?e = ''all'' \<or> ?e = ''all-enabled''"
    | (disabled) "py_strip selection \<noteq> []" "?e = ''all-disabled''"
    | (every) "py_strip selection \<noteq> []" "?e = ''all-all''"
    | (tokens) "py_strip selection \<noteq> []" "?e \<noteq> ''all''" "?e \<noteq> ''all-enabled''"
        "?e \<noteq> ''all-disabled''" "?e \<noteq> ''all-all''"
    by blast
  then show ?thesis
  proof cases
    case blank
    then have n: "ns = filter nc_enabled (nodes config)"
      using assms by (auto simp: parse_selection_def get_nodes_def)
    have "produced_nodes config ?self selection = Inr (filter nc_enabled (nodes config))"
      using blank by (simp add: produced_nodes_def py_lower_def)
    moreover have "keyword_selection selection"
      using blank by (simp add: keyword_selection_def py_lower_def)
    ultimately show ?thesis using n keyword [of nc_enabled] by simp
  next
    case enabled
    then have sel: "selection \<noteq> []" using strip_Nil by auto
    have n: "ns = filter nc_enabled (nodes config)"
      using assms enabled sel by (auto simp: parse_selection_def get_nodes_def Let_def)
    have "produced_nodes config ?self selection = Inr (filter nc_enabled (nodes config))"
      using enabled by (auto simp: produced_nodes_def Let_def)
    moreover have "keyword_selection selection"
      using enabled by (auto simp: keyword_selection_def Let_def)
    ultimately show ?thesis using n keyword [of nc_enabled] by simp
  next
    case disabled
    then have sel: "selection \<noteq> []" using strip_Nil by auto
    have n: "ns = filter (\<lambda>n. \<not> nc_enabled n) (nodes config)"
      using assms disabled sel all by (auto simp: parse_selection_def Let_def)
    have "produced_nodes config ?self selection
            = Inr (filter (\<lambda>n. \<not> nc_enabled n) (nodes config))"
      using disabled all by (auto simp: produced_nodes_def Let_def)
    moreover have "keyword_selection selection"
      using disabled by (auto simp: keyword_selection_def Let_def)
    ultimately show ?thesis using n keyword [of "\<lambda>n. \<not> nc_enabled n"] by simp
  next
    case every
    then have sel: "selection \<noteq> []" using strip_Nil by auto
    have n: "ns = filter (\<lambda>n. True) (nodes config)"
      using assms every sel all by (auto simp: parse_selection_def Let_def)
    have "produced_nodes config ?self selection = Inr (nodes config)"
      using every all by (auto simp: produced_nodes_def Let_def)
    moreover have "keyword_selection selection"
      using every by (auto simp: keyword_selection_def Let_def)
    ultimately show ?thesis using n keyword [of "\<lambda>n. True"] by simp
  next
    case tokens
    then have sel: "selection \<noteq> []" using strip_Nil by auto
    have ne: "?e \<noteq> []" using tokens(1) by (simp add: py_lower_Nil)
    have nk: "\<not> keyword_selection selection"
      using tokens ne by (simp add: keyword_selection_def Let_def)
    let ?parts = "map py_strip (py_split (CHR '','') ?e)"
    from assms tokens sel obtain selected where
      s: "select_parts ?self ?parts [] = Inr selected" and n: "ns = unique_by_id selected {} []"
      by (auto simp: parse_selection_def Let_def split: sum.splits)
    from select_parts_concat [OF s] have c: "concat_tokens ?self ?parts = Inr selected" by simp
    have "produced_nodes config ?self selection = Inr selected"
      using tokens ne c by (simp add: produced_nodes_def Let_def)
    moreover have "ns = first_occurrences selected"
      using n by (simp add: unique_by_id_first_occurrences)
    ultimately show ?thesis using nk distinct_first_occurrences by auto
  qed
qed

lemma sim_selections:
  "map_sum id (map nc_id) (parse_selection sim_fleet (NodeSelector_init sim_fleet) ''3,2-4,0,3'')
     = Inr [3, 2, 4, 0]"
  "\<not> keyword_selection ''3,2-4,0,3''"
  "map_sum id (map nc_id) (parse_selection twin_fleet (NodeSelector_init twin_fleet) ''1,10.0.0.12'')
     = Inr [1]"
  "\<not> keyword_selection ''1,10.0.0.12''"
  by code_simp+

theorem parse_selection_first_occurrences_witness:
  "(\<exists>ns produced.
       parse_selection sim_fleet (NodeSelector_init sim_fleet) ''3,2-4,0,3'' = Inr ns
     \<and> produced_nodes sim_fleet (NodeSelector_init sim_fleet) ''3,2-4,0,3'' = Inr produced
     \<and> map nc_id ns = [3, 2, 4, 0] \<and> ns = first_occurrences produced
     \<and> distinct (map nc_id ns))
   \<and> (\<exists>ns produced.
         parse_selection twin_fleet (NodeSelector_init twin_fleet) ''1,10.0.0.12'' = Inr ns
       \<and> produced_nodes twin_fleet (NodeSelector_init twin_fleet) ''1,10.0.0.12'' = Inr produced
       \<and> map nc_id ns = [1] \<and> ns = first_occurrences produced
       \<and> distinct (map nc_id ns))"
proof -
  obtain ns where p: "parse_selection sim_fleet (NodeSelector_init sim_fleet) ''3,2-4,0,3'' = Inr ns"
    and i: "map nc_id ns = [3, 2, 4, 0]"
    using sim_selections(1)
    by (cases "parse_selection sim_fleet (NodeSelector_init sim_fleet) ''3,2-4,0,3''") auto
  obtain ms where q: "parse_selection twin_fleet (NodeSelector_init twin_fleet) ''1,10.0.0.12'' = Inr ms"
    and j: "map nc_id ms = [1]"
    using sim_selections(3)
    by (cases "parse_selection twin_fleet (NodeSelector_init twin_fleet) ''1,10.0.0.12''") auto
  from parse_selection_first_occurrences [OF p] sim_selections(2) p i
  have 1: "\<exists>ns produced.
       parse_selection sim_fleet (NodeSelector_init sim_fleet) ''3,2-4,0,3'' = Inr ns
     \<and> produced_nodes sim_fleet (NodeSelector_init sim_fleet) ''3,2-4,0,3'' = Inr produced
     \<and> map nc_id ns = [3, 2, 4, 0] \<and> ns = first_occurrences produced
     \<and> distinct (map nc_id ns)"
    by auto
  from parse_selection_first_occurrences [OF q] sim_selections(4) q j
  have 2: "\<exists>ns produced.
         parse_selection twin_fleet (NodeSelector_init twin_fleet) ''1,10.0.0.12'' = Inr ns
       \<and> produced_nodes twin_fleet (NodeSelector_init twin_fleet) ''1,10.0.0.12'' = Inr produced
       \<and> map nc_id ns = [1] \<and> ns = first_occurrences produced
       \<and> distinct (map nc_id ns)"
    by auto
  from 1 2 show ?thesis by blast
qed

text \<open>
  C5, as the claim has it, fails: the keyword branches return before the deduplication,
  and the configuration accepts two nodes with the same id, so \<open>all-all\<close> returns
  both.
\<close>

theorem keyword_returns_repeated_ids:
  "map_sum id (map nc_id) (parse_selection twin_fleet (NodeSelector_init twin_fleet) ''all-all'')
     = Inr [1, 1]"
  by code_simp

text \<open>
  \<open>parse_selection\<close> does not return for every expression: \<open>str.isdigit\<close> accepts
  the superscript digits, which \<open>int()\<close> rejects.
\<close>

lemma parse_selection_superscript_digit:
  "parse_selection sim_fleet (NodeSelector_init sim_fleet) [CHR 0xB2]
     = Inl (InvalidIntLiteral [CHR 0xB2])"
  by code_simp

text \<open>
  C6. For every node list, the keyword \<open>all-all\<close> returns a superset of what
  \<open>all-enabled\<close> and \<open>all-disabled\<close> return together, and the latter two have no
  node in common.
\<close>

theorem keyword_sets:
  "\<exists>a e d. parse_selection config (NodeSelector_init config) ''all-all'' = Inr a
      \<and> parse_selection config (NodeSelector_init config) ''all-enabled'' = Inr e
      \<and> parse_selection config (NodeSelector_init config) ''all-disabled'' = Inr d
      \<and> set e \<union> set d \<subseteq> set a \<and> set e \<inter> set d = {}"
  by (auto simp: parse_selection_def NodeSelector_init_def get_nodes_def py_strip_def py_lower_def
        isspace_chr_def lower_chr_def)

theorem keyword_sets_witness:
  "parse_selection sim_fleet (NodeSelector_init sim_fleet) ''all-all'' = Inr (nodes sim_fleet)
   \<and> (\<exists>a e d. parse_selection sim_fleet (NodeSelector_init sim_fleet) ''all-all'' = Inr a
        \<and> parse_selection sim_fleet (NodeSelector_init sim_fleet) ''all-enabled'' = Inr e
        \<and> parse_selection sim_fleet (NodeSelector_init sim_fleet) ''all-disabled'' = Inr d
        \<and> set e \<union> set d \<subseteq> set a \<and> set e \<inter> set d = {}
        \<and> map nc_id e = [0, 2, 3, 5, 10] \<and> map nc_id d = [1, 4])"
proof -
  have a: "parse_selection sim_fleet (NodeSelector_init sim_fleet) ''all-all'' = Inr (nodes sim_fleet)"
    by (simp add: parse_selection_def NodeSelector_init_def get_nodes_def py_strip_def
          py_lower_def isspace_chr_def lower_chr_def)
  have e: "parse_selection sim_fleet (NodeSelector_init sim_fleet) ''all-enabled''
             = Inr (filter nc_enabled (nodes sim_fleet))"
    by (simp add: parse_selection_def NodeSelector_init_def get_nodes_def py_strip_def
          py_lower_def isspace_chr_def lower_chr_def)
  have d: "parse_selection sim_fleet (NodeSelector_init sim_fleet) ''all-disabled''
             = Inr (filter (\<lambda>n. \<not> nc_enabled n) (nodes sim_fleet))"
    by (simp add: parse_selection_def NodeSelector_init_def get_nodes_def py_strip_def
          py_lower_def isspace_chr_def lower_chr_def)
  have ie: "map nc_id (filter nc_enabled (nodes sim_fleet)) = [0, 2, 3, 5, 10]"
    by (simp add: sim_fleet_def sim_config_def sim_node_def)
  have id: "map nc_id (filter (\<lambda>n. \<not> nc_enabled n) (nodes sim_fleet)) = [1, 4]"
    by (simp add: sim_fleet_def sim_config_def sim_node_def)
  from keyword_sets [of sim_fleet] a e d ie id show ?thesis by auto
qed

section \<open>Properties of connections and the pool\<close>

text \<open>
  C3. \<open>SSHConnection.connect\<close> never raises: it always returns a boolean. It returns
  True exactly when the client was created, the credentials resolved and the handshake
  went through, and then the connection is marked connected with \<open>last_activity\<close>
  set to the clock; in every other case (missing credentials and a failed handshake
  included) it returns False, the connection is marked not connected, its client handle
  is cleared, and the handle it held when the failure occurred has been closed.
\<close>

theorem connect_never_raises:
  "\<exists>ok s'. connect env a s = (Inr ok, s')
     \<and> (ok \<longleftrightarrow>
          (case new_client env (world s) of
             (Inl e, w1) \<Rightarrow> False
           | (Inr h, w1) \<Rightarrow>
               (case connect_kwargs env ((heap s a)\<lparr> client := Some h \<rparr>) w1 of
                  Inl e \<Rightarrow> False
                | Inr kwargs \<Rightarrow> fst (client_connect env h kwargs w1) = None)))
     \<and> (if ok
         then connected (heap s' a) \<and> last_activity (heap s' a) = time_now env (world s')
              \<and> client (heap s' a) \<noteq> None
         else \<not> connected (heap s' a) \<and> client (heap s' a) = None
              \<and> (case fst (new_client env (world s)) of
                     Inr h \<Rightarrow> h \<in> set (closed s')
                   | Inl e \<Rightarrow> (case client (heap s a) of
                                Some h0 \<Rightarrow> h0 \<in> set (closed s')
                              | None \<Rightarrow> closed s' = closed s)))"
  by (auto simp: connect_def connect_except_def Let_def
           split: prod.splits sum.splits option.splits)

theorem connect_never_raises_witness:
  "(\<exists>s'. connect always_up 0 sim_one = (Inr True, s') \<and> connected (heap s' 0)
         \<and> last_activity (heap s' 0) = time_now always_up (world s'))
   \<and> (\<exists>s'. connect never_up 0 sim_one = (Inr False, s') \<and> \<not> connected (heap s' 0)
         \<and> client (heap s' 0) = None \<and> 0 \<in> set (closed s'))"
proof -
  have up: "fst (connect always_up 0 sim_one) = Inr True"
    and down: "fst (connect never_up 0 sim_one) = Inr False"
    and h: "fst (new_client never_up (world sim_one)) = Inr 0"
    by code_simp+
  from connect_never_raises [of always_up 0 sim_one] up have 1:
    "\<exists>s'. connect always_up 0 sim_one = (Inr True, s') \<and> connected (heap s' 0)
         \<and> last_activity (heap s' 0) = time_now always_up (world s')"
    by (auto split: if_splits)
  from connect_never_raises [of never_up 0 sim_one] down h have 2:
    "\<exists>s'. connect never_up 0 sim_one = (Inr False, s') \<and> \<not> connected (heap s' 0)
         \<and> client (heap s' 0) = None \<and> 0 \<in> set (closed s')"
    by (auto split: if_splits)
  from 1 2 show ?thesis by blast
qed

text \<open>
  C4. \<open>SSHConnection.execute_command\<close> raises the not-connected error exactly when the
  connection is not marked connected or holds no client handle, and then it leaves the
  state as it is. When connected, it returns the triple of exit code, standard output and
  standard error that the session gives and sets \<open>last_activity\<close> to the clock; when
  the session raises, that error is propagated as it is and \<open>last_activity\<close> stays.
\<close>

theorem execute_command_contract:
  "((\<exists>name. fst (execute_command env a c t s) = Inl (NotConnected name))
      \<longleftrightarrow> (\<not> connected (heap s a) \<or> client (heap s a) = None))
   \<and> (\<not> connected (heap s a) \<or> client (heap s a) = None \<longrightarrow>
        execute_command env a c t s = (Inl (NotConnected (nc_name (conn_node (heap s a)))), s))
   \<and> (\<forall>h. connected (heap s a) \<and> client (heap s a) = Some h \<longrightarrow>
        (case exec_command env h c t (world s) of
           (Inr triple, w1) \<Rightarrow>
             execute_command env a c t s
               = (Inr triple,
                  s\<lparr> heap := (heap s)(a := (heap s a)\<lparr> last_activity := time_now env w1 \<rparr>),
                     world := w1 \<rparr>)
         | (Inl e, w1) \<Rightarrow>
             execute_command env a c t s = (Inl (Library e), s\<lparr> world := w1 \<rparr>)))"
  by (auto simp: execute_command_def split: prod.splits sum.splits)

theorem execute_command_contract_witness:
  "execute_command always_up 0 ''echo hi'' 300 sim_one
     = (Inl (NotConnected ''node-10.0.0.12''), sim_one)
   \<and> fst (execute_command always_up 0 ''echo hi'' 300 sim_conn) = Inr (0, ''echo hi'', [])
   \<and> last_activity (heap (snd (execute_command always_up 0 ''echo hi'' 300 sim_conn)) 0) = 1"
proof -
  have one: "\<not> connected (heap sim_one 0)" "nc_name (conn_node (heap sim_one 0)) = ''node-10.0.0.12''"
    and conn: "connected (heap sim_conn 0)" "client (heap sim_conn 0) = Some 0"
    and ex: "exec_command always_up 0 ''echo hi'' 300 (world sim_conn)
               = (Inr (0, ''echo hi'', []), [''echo hi''])"
    and now: "time_now always_up [''echo hi''] = 1"
    by code_simp+
  from execute_command_contract [of always_up 0 "''echo hi''" 300 sim_one] one
  have 1: "execute_command always_up 0 ''echo hi'' 300 sim_one
             = (Inl (NotConnected ''node-10.0.0.12''), sim_one)"
    by simp
  from execute_command_contract [of always_up 0 "''echo hi''" 300 sim_conn] conn ex
  have 2: "execute_command always_up 0 ''echo hi'' 300 sim_conn
             = (Inr (0, ''echo hi'', []),
                sim_conn\<lparr> heap := (heap sim_conn)(0 := (heap sim_conn 0)
                                     \<lparr> last_activity := time_now always_up [''echo hi''] \<rparr>),
                          world := [''echo hi''] \<rparr>)"
    by simp
  from 1 2 now show ?thesis by simp
qed

lemma disconnect_result:
  "\<exists>s1. disconnect env a s = (Inr (), s1)
     \<and> \<not> connected (heap s1 a) \<and> client (heap s1 a) = None
     \<and> connections s1 = connections s
     \<and> (\<forall>b. (\<not> connected (heap s b) \<longrightarrow> \<not> connected (heap s1 b))
            \<and> (client (heap s b) = None \<longrightarrow> client (heap s1 b) = None))"
  by (auto simp: disconnect_def Let_def split: option.splits)

lemma disconnect_each_result:
  "\<exists>s1. disconnect_each env cs s = (Inr (), s1)
     \<and> connections s1 = connections s
     \<and> (\<forall>(k, a) \<in> set cs. \<not> connected (heap s1 a) \<and> client (heap s1 a) = None)
     \<and> (\<forall>b. (\<not> connected (heap s b) \<longrightarrow> \<not> connected (heap s1 b))
            \<and> (client (heap s b) = None \<longrightarrow> client (heap s1 b) = None))"
proof (induction cs arbitrary: s)
  case Nil
  then show ?case by simp
next
  case (Cons c cs)
  obtain k a where c: "c = (k, a)" by (cases c)
  from disconnect_result [of env a s] obtain s1 where
    d: "disconnect env a s = (Inr (), s1)" and
    a: "\<not> connected (heap s1 a)" "client (heap s1 a) = None" and
    cs: "connections s1 = connections s" and
    mono: "\<forall>b. (\<not> connected (heap s b) \<longrightarrow> \<not> connected (heap s1 b))
            \<and> (client (heap s b) = None \<longrightarrow> client (heap s1 b) = None)"
    by blast
  from Cons.IH [of s1] obtain s2 where
    e: "disconnect_each env cs s1 = (Inr (), s2)" and
    cs2: "connections s2 = connections s1" and
    all: "\<forall>(k, a) \<in> set cs. \<not> connected (heap s2 a) \<and> client (heap s2 a) = None" and
    mono2: "\<forall>b. (\<not> connected (heap s1 b) \<longrightarrow> \<not> connected (heap s2 b))
            \<and> (client (heap s1 b) = None \<longrightarrow> client (heap s2 b) = None)"
    by blast
  have "disconnect_each env (c # cs) s = (Inr (), s2)"
    using c d e by simp
  moreover have "\<forall>(k, a) \<in> set (c # cs). \<not> connected (heap s2 a) \<and> client (heap s2 a) = None"
    using c a all mono2 by auto
  moreover have "\<forall>b. (\<not> connected (heap s b) \<longrightarrow> \<not> connected (heap s2 b))
            \<and> (client (heap s b) = None \<longrightarrow> client (heap s2 b) = None)"
    using mono mono2 by blast
  ultimately show ?case using cs cs2 by auto
qed

text \<open>
  C9. \<open>NodeManager.disconnect_all\<close> raises no error and leaves the pool's dictionary
  empty; every connection the pool held before the call is then marked not connected and
  has no client handle. A second call right after the first raises no error either and
  changes nothing: the dictionary is still empty.
\<close>

theorem disconnect_all_idempotent:
  "\<exists>s1. disconnect_all env s = (Inr (), s1)
     \<and> connections s1 = []
     \<and> (\<forall>(k, a) \<in> set (connections s). \<not> connected (heap s1 a) \<and> client (heap s1 a) = None)
     \<and> disconnect_all env s1 = (Inr (), s1)"
proof -
  from disconnect_each_result [of env "connections s" s] obtain s1 where
    e: "disconnect_each env (connections s) s = (Inr (), s1)" and
    all: "\<forall>(k, a) \<in> set (connections s). \<not> connected (heap s1 a) \<and> client (heap s1 a) = None"
    by blast
  let ?s = "s1\<lparr> connections := [] \<rparr>"
  have "disconnect_all env s = (Inr (), ?s)"
    using e by (simp add: disconnect_all_def)
  moreover have "disconnect_all env ?s = (Inr (), ?s)"
    by (simp add: disconnect_all_def)
  moreover have "\<forall>(k, a) \<in> set (connections s). \<not> connected (heap ?s a) \<and> client (heap ?s a) = None"
    using all by simp
  ultimately show ?thesis by auto
qed

theorem disconnect_all_idempotent_witness:
  "connections sim_conn = [(2, 0)] \<and> connected (heap sim_conn 0)
   \<and> (\<exists>s1. disconnect_all always_up sim_conn = (Inr (), s1) \<and> connections s1 = []
         \<and> \<not> connected (heap s1 0) \<and> client (heap s1 0) = None
         \<and> disconnect_all always_up s1 = (Inr (), s1))"
proof -
  have c: "connections sim_conn = [(2, 0)]" and k: "connected (heap sim_conn 0)"
    by code_simp+
  from disconnect_all_idempotent [of always_up sim_conn] c k show ?thesis
    by auto
qed

section \<open>Properties of task execution\<close>

declare retry_loop.simps [simp del]

declare as_completed.simps [simp del]

lemma get_nodes_by_ids_ids:
  "map nc_id (get_nodes_by_ids config ids) = filter (\<lambda>i. i \<in> nc_id ` set (nodes config)) ids"
proof (induction ids)
  case Nil
  then show ?case by simp
next
  case (Cons i ids)
  show ?case
  proof (cases "get_node_by_id config i")
    case None
    then have "i \<notin> nc_id ` set (nodes config)"
      by (auto simp: get_node_by_id_def get_nodes_def find_None_iff)
    with None Cons show ?thesis by simp
  next
    case (Some node)
    then have "nc_id node = i" "node \<in> set (nodes config)"
      by (auto simp: get_node_by_id_def get_nodes_def find_Some_iff)
    then have "i \<in> nc_id ` set (nodes config)" by auto
    with Some Cons \<open>nc_id node = i\<close> show ?thesis by simp
  qed
qed

lemma success_retry_count: "success (r\<lparr> res_retry_count := k \<rparr>) = success r"
  by simp











lemma execute_task_on_node_id:
  "node_id (fst (execute_task_on_node env config node task s)) = nc_id node"
  by (auto simp: execute_task_on_node_def new_result_def Let_def split: prod.splits sum.splits)

lemma retry_loop_outcome:
  "retry_loop env config node task attempt last_result s = (out, s') \<Longrightarrow>
     (case out of
        Inl e \<Rightarrow> True
      | Inr None \<Rightarrow> last_result = None \<and> \<not> attempt < retry_count task + 1
      | Inr (Some r) \<Rightarrow> node_id r = nc_id node \<or> last_result = Some r)"
proof (induction env config node task attempt last_result s arbitrary: out s'
         rule: retry_loop.induct)
  case (1 env config node task attempt last_result s)
  show ?case
  proof (cases "attempt < retry_count task + 1")
    case False
    then have "retry_loop env config node task attempt last_result s = (Inr last_result, s)"
      by (subst retry_loop.simps) simp
    with "1.prems" False show ?thesis by (auto split: option.splits)
  next
    case True
    obtain r s1 where ex: "execute_task_on_node env config node task s = (r, s1)"
      by (cases "execute_task_on_node env config node task s")
    let ?result = "r\<lparr> res_retry_count := attempt \<rparr>"
    have id: "node_id ?result = nc_id node"
      using execute_task_on_node_id [of env config node task s] ex by simp
    consider (ok) "success r"
      | (sleep_fails) "\<not> success r" "attempt < retry_count task" "retry_delay task < 0"
      | (again) "\<not> success r" "attempt < retry_count task" "\<not> retry_delay task < 0"
      | (last) "\<not> success r" "\<not> attempt < retry_count task"
      by blast
    then show ?thesis
    proof cases
      case ok
      then have "retry_loop env config node task attempt last_result s = (Inr (Some ?result), s1)"
        using True ex by (subst retry_loop.simps) (simp add: Let_def)
      with "1.prems" id show ?thesis by auto
    next
      case sleep_fails
      then have "retry_loop env config node task attempt last_result s = (Inl NegativeSleep, s1)"
        using True ex by (subst retry_loop.simps) (simp add: Let_def)
      with "1.prems" show ?thesis by auto
    next
      case again
      let ?s2 = "s1\<lparr> world := time_sleep env (retry_delay task) (world s1) \<rparr>"
      have "retry_loop env config node task attempt last_result s
              = retry_loop env config node task (attempt + 1) (Some ?result) ?s2"
        using again True ex by (subst retry_loop.simps) (simp add: Let_def)
      with "1.prems" have p: "retry_loop env config node task (attempt + 1) (Some ?result) ?s2 = (out, s')"
        by simp
      have "case out of
              Inl e \<Rightarrow> True
            | Inr None \<Rightarrow> Some ?result = None \<and> \<not> attempt + 1 < retry_count task + 1
            | Inr (Some r') \<Rightarrow> node_id r' = nc_id node \<or> Some ?result = Some r'"
        using "1.IH"(1) [OF True ex [symmetric] refl _ _ _ p] again by simp
      then show ?thesis using id by (auto split: sum.splits option.splits)
    next
      case last
      have "retry_loop env config node task attempt last_result s
              = retry_loop env config node task (attempt + 1) (Some ?result) s1"
        using last True ex by (subst retry_loop.simps) (simp add: Let_def)
      with "1.prems" have p: "retry_loop env config node task (attempt + 1) (Some ?result) s1 = (out, s')"
        by simp
      have "case out of
              Inl e \<Rightarrow> True
            | Inr None \<Rightarrow> Some ?result = None \<and> \<not> attempt + 1 < retry_count task + 1
            | Inr (Some r') \<Rightarrow> node_id r' = nc_id node \<or> Some ?result = Some r'"
        using "1.IH"(2) [OF True ex [symmetric] refl _ _ p] last by simp
      then show ?thesis using id by (auto split: sum.splits option.splits)
    qed
  qed
qed

lemma execute_task_with_retry_good:
  assumes "0 \<le> retry_count task"
    and "execute_task_with_retry env config node task s = (out, s')"
  shows "good_future (node, out)"
  using retry_loop_outcome [of env config node task 0 None s out s'] assms
  by (auto simp: execute_task_with_retry_def good_future_def split: sum.splits option.splits)

lemma run_workers_futures:
  assumes "0 \<le> retry_count task"
  shows "run_workers env config task ns s = (fs, s') \<Longrightarrow>
         map fst fs = ns \<and> list_all good_future fs"
proof (induction ns arbitrary: s fs s')
  case Nil
  then show ?case by simp
next
  case (Cons node ns)
  obtain out s1 where w: "execute_task_with_retry env config node task s = (out, s1)"
    by (cases "execute_task_with_retry env config node task s")
  obtain fs1 s2 where r: "run_workers env config task ns s1 = (fs1, s2)"
    by (cases "run_workers env config task ns s1")
  from Cons.prems w r have fs: "fs = (node, out) # fs1" by simp
  from Cons.IH [OF r] execute_task_with_retry_good [OF assms w] fs show ?case by simp
qed

lemma mset_as_completed: "mset (as_completed sched k pending) = mset pending"
proof (induction sched k pending rule: as_completed.induct)
  case (1 sched k pending)
  show ?case
  proof (cases "pending = []")
    case True
    then show ?thesis by (subst as_completed.simps) simp
  next
    case False
    define i where "i = sched k mod length pending"
    have i: "i < length pending" using False by (simp add: i_def)
    have "as_completed sched k pending
            = pending ! i # as_completed sched (Suc k) (take i pending @ drop (Suc i) pending)"
      using False by (subst as_completed.simps) (simp add: i_def Let_def)
    moreover have "mset (as_completed sched (Suc k) (take i pending @ drop (Suc i) pending))
                     = mset (take i pending @ drop (Suc i) pending)"
      using "1.IH" [OF False i_def] .
    moreover have "mset pending = mset (take i pending @ pending ! i # drop (Suc i) pending)"
      using id_take_nth_drop [OF i] by simp
    ultimately show ?thesis by simp
  qed
qed

lemma success_count_results: "\<exists>n. success_count (map Some rs) = Inr n"
  by (induction rs) auto

lemma collect_good_futures:
  "list_all good_future fs \<Longrightarrow>
     \<exists>rs. concat (map (collect_future task) fs) = map Some rs
         \<and> map node_id rs = map (\<lambda>f. nc_id (fst f)) fs"
proof (induction fs)
  case Nil
  then show ?case by simp
next
  case (Cons f fs)
  then obtain rs where rs: "concat (map (collect_future task) fs) = map Some rs"
    "map node_id rs = map (\<lambda>f. nc_id (fst f)) fs"
    by auto
  from Cons.prems have "good_future f" by simp
  then obtain r where r: "collect_future task f = [Some r]" "node_id r = nc_id (fst f)"
    by (cases f) (auto simp: good_future_def collect_future_def new_result_def
                       split: sum.splits option.splits)
  show ?case
    using rs r by (intro exI [of _ "r # rs"]) simp
qed

text \<open>
  C1, as the code has it. For a task whose retry count is not negative, under a
  configuration whose concurrency ceiling is at least 1, \<open>execute_task\<close> returns
  exactly one TaskResult for every node that the task's id list resolves to, whatever the
  environment does (failed connects and workers that raise included: such a worker gets
  the error result) and in whatever order the workers complete. The ids of the results
  are, as a multiset, the ids of the resolved nodes: for an explicit id list these are
  the listed ids that the configuration knows, with their repetitions. So no two results
  share an id when the resolved nodes do not.
\<close>

theorem execute_task_one_result_per_node:
  assumes "0 \<le> retry_count task" and "1 \<le> max_concurrent (execution config)"
  shows "\<exists>rs s'. execute_task env config sched task s = (Inr (map Some rs), s')
           \<and> length rs = length (target_nodes config task)
           \<and> mset (map node_id rs) = mset (map nc_id (target_nodes config task))
           \<and> (distinct (map nc_id (target_nodes config task)) \<longrightarrow> distinct (map node_id rs))
           \<and> (node_ids task \<noteq> [] \<longrightarrow>
                mset (map node_id rs)
                  = mset (filter (\<lambda>i. i \<in> nc_id ` set (nodes config)) (node_ids task)))"
proof -
  let ?ns = "target_nodes config task"
  have ids: "node_ids task \<noteq> [] \<longrightarrow>
               map nc_id ?ns = filter (\<lambda>i. i \<in> nc_id ` set (nodes config)) (node_ids task)"
    by (simp add: target_nodes_def get_nodes_by_ids_ids)
  show ?thesis
  proof (cases "?ns = []")
    case True
    then have "execute_task env config sched task s = (Inr (map Some []), s)"
      by (simp add: execute_task_def)
    then show ?thesis using True ids by (intro exI [of _ "[]"] exI [of _ s]) auto
  next
    case False
    then have width: "\<not> min (int (length ?ns)) (max_concurrent (execution config)) \<le> 0"
      using assms(2) by (cases ?ns) auto
    obtain fs s1 where w: "run_workers env config task ?ns s = (fs, s1)"
      by (cases "run_workers env config task ?ns s")
    from run_workers_futures [OF assms(1) w]
    have fst: "map fst fs = ?ns" and good: "list_all good_future fs" by simp_all
    let ?done = "as_completed sched 0 fs"
    have m: "mset ?done = mset fs" by (rule mset_as_completed)
    then have "set ?done = set fs" by (rule mset_eq_setD)
    with good have "list_all good_future ?done" by (simp add: list_all_iff)
    from collect_good_futures [OF this, of task] obtain rs where
      rs: "concat (map (collect_future task) ?done) = map Some rs"
      "map node_id rs = map (\<lambda>f. nc_id (fst f)) ?done"
      by blast
    have ex: "execute_task env config sched task s = (Inr (map Some rs), s1)"
      using False width w rs(1) success_count_results [of rs]
      by (auto simp: execute_task_def Let_def)
    have "mset (map node_id rs) = image_mset (\<lambda>f. nc_id (fst f)) (mset ?done)"
      using rs(2) by simp
    also have "\<dots> = image_mset (\<lambda>f. nc_id (fst f)) (mset fs)" using m by simp
    also have "\<dots> = mset (map nc_id (map fst fs))" by (simp add: multiset.map_comp comp_def)
    finally have ms: "mset (map node_id rs) = mset (map nc_id ?ns)" using fst by simp
    then have len: "length rs = length ?ns"
      using mset_eq_length [OF ms] by simp
    have dist: "distinct (map nc_id ?ns) \<longrightarrow> distinct (map node_id rs)"
      using mset_eq_imp_distinct_iff [OF ms] by simp
    have idm: "node_ids task \<noteq> [] \<longrightarrow>
                 mset (map node_id rs)
                   = mset (filter (\<lambda>i. i \<in> nc_id ` set (nodes config)) (node_ids task))"
    proof
      assume "node_ids task \<noteq> []"
      with ids have "map nc_id ?ns = filter (\<lambda>i. i \<in> nc_id ` set (nodes config)) (node_ids task)"
        by blast
      with ms show "mset (map node_id rs)
                      = mset (filter (\<lambda>i. i \<in> nc_id ` set (nodes config)) (node_ids task))"
        by metis
    qed
    from ex len ms dist idm show ?thesis by blast
  qed
qed

lemma sim_targets:
  "map nc_id (target_nodes sim_fleet (sim_task [2, 3, 99, 0] 3 5)) = [2, 3, 0]"
  "max_concurrent (execution sim_fleet) = 10"
  by code_simp+

lemma sim_run_never_up:
  "map_sum id (map (map_option node_id))
     (fst (execute_task never_up sim_fleet (\<lambda>k. 1) (sim_task [2, 3, 99, 0] 3 5) sim_state))
     = Inr [Some 3, Some 0, Some 2]"
  by code_simp

theorem execute_task_one_result_per_node_witness:
  "0 \<le> retry_count (sim_task [2, 3, 99, 0] 3 5)
   \<and> 1 \<le> max_concurrent (execution sim_fleet)
   \<and> map_sum id (map (map_option node_id))
        (fst (execute_task never_up sim_fleet (\<lambda>k. 1) (sim_task [2, 3, 99, 0] 3 5) sim_state))
      = Inr [Some 3, Some 0, Some 2]
   \<and> (\<exists>rs s'. execute_task never_up sim_fleet (\<lambda>k. 1) (sim_task [2, 3, 99, 0] 3 5) sim_state
                  = (Inr (map Some rs), s')
          \<and> length rs = 3 \<and> mset (map node_id rs) = {#2, 3, 0#} \<and> distinct (map node_id rs))"
proof -
  have h1: "0 \<le> retry_count (sim_task [2, 3, 99, 0] 3 5)" by (simp add: sim_task_def)
  have h2: "1 \<le> max_concurrent (execution sim_fleet)" by (simp add: sim_targets)
  from execute_task_one_result_per_node [OF h1 h2, of never_up "\<lambda>k. 1" sim_state]
  obtain rs s' where
    "execute_task never_up sim_fleet (\<lambda>k. 1) (sim_task [2, 3, 99, 0] 3 5) sim_state
       = (Inr (map Some rs), s')"
    "length rs = length (target_nodes sim_fleet (sim_task [2, 3, 99, 0] 3 5))"
    "mset (map node_id rs) = mset (map nc_id (target_nodes sim_fleet (sim_task [2, 3, 99, 0] 3 5)))"
    "distinct (map nc_id (target_nodes sim_fleet (sim_task [2, 3, 99, 0] 3 5)))
       \<longrightarrow> distinct (map node_id rs)"
    by blast
  moreover have "length (target_nodes sim_fleet (sim_task [2, 3, 99, 0] 3 5)) = 3"
    using sim_targets(1) by (metis length_map length_Cons list.size(3) numeral_3_eq_3)
  ultimately have "\<exists>rs s'. execute_task never_up sim_fleet (\<lambda>k. 1) (sim_task [2, 3, 99, 0] 3 5) sim_state
                  = (Inr (map Some rs), s')
          \<and> length rs = 3 \<and> mset (map node_id rs) = {#2, 3, 0#} \<and> distinct (map node_id rs)"
    using sim_targets(1) by (intro exI [of _ rs] exI [of _ s']) simp
  with h1 h2 sim_run_never_up show ?thesis by blast
qed

text \<open>
  C1, as the claim has it, fails. An id listed twice resolves to the same node twice, and
  the node gets two results. And with a negative retry count the worker makes no attempt
  and returns None; the collecting loop appends it, and the count of the successes that
  follows the loop raises on it, so that \<open>execute_task\<close> returns no list at all.
\<close>

theorem execute_task_duplicates_and_none:
  "map nc_id (target_nodes sim_fleet (sim_task [2, 2] 3 5)) = [2, 2]
   \<and> map_sum id (map (map_option node_id))
        (fst (execute_task always_up sim_fleet (\<lambda>k. 0) (sim_task [2, 2] 3 5) sim_state))
      = Inr [Some 2, Some 2]
   \<and> map nc_id (target_nodes sim_fleet (sim_task [2] (- 1) 5)) = [2]
   \<and> fst (execute_task always_up sim_fleet (\<lambda>k. 0) (sim_task [2] (- 1) 5) sim_state)
      = Inl (NoneHasNoAttribute ''success'')"
  by code_simp

lemma worker_fault_gives_error_result:
  "map_sum id (map (map_option (\<lambda>r. (node_id r, success r, exit_code r, error_message r))))
     (fst (execute_task exit_one sim_fleet (\<lambda>k. 0) (sim_task [2] 3 (- 1)) sim_state))
     = Inr [Some (2, False, None, ''sleep length must be non-negative'')]"
  by code_simp

lemma zero_width_pool_raises:
  "fst (execute_task always_up
          (sim_fleet\<lparr> execution := (execution sim_fleet)\<lparr> max_concurrent := 0 \<rparr> \<rparr>)
          (\<lambda>k. 0) (sim_task [2] 3 5) sim_state)
     = Inl InvalidMaxWorkers"
  by code_simp

section \<open>Properties of script execution\<close>

lemma script_execute_command_cases:
  "script_execute_command p c args =
     (if py_lower (splitext_ext p) = ''.py'' \<or> python_shebang c
      then ''python3 '' @ p @ '' '' @ args
      else if py_lower (splitext_ext p) = ''.sh'' \<or> py_lower (splitext_ext p) = ''.bash''
              \<or> bash_shebang c \<or> \<not> py_startswith c ''#!''
      then ''bash '' @ p @ '' '' @ args
      else p @ '' '' @ args)"
  by (simp add: script_execute_command_def python_shebang_def bash_shebang_def Let_def)

lemma script_try_run_step:
  assumes "run_step_reached env config node c p s"
  shows "script_try env config node c p args tmo result s =
           (case execute_command env (fst (get_connection env config node s))
                   (script_execute_command p c args) tmo (run_step_state env config node c p s) of
              (Inl e, s5) \<Rightarrow> ((Some e, result), s5)
            | (Inr (code3, out3, err3), s5) \<Rightarrow>
                (let result' = result\<lparr> exit_code := Some code3, stdout := out3, stderr := err3,
                                        success := (code3 = 0) \<rparr>
                 in case execute_command env (fst (get_connection env config node s))
                           (''rm -f '' @ p) 10 s5 of
                      (Inl e, s6) \<Rightarrow> ((Some e, result'), s6)
                    | (Inr cleanup, s6) \<Rightarrow> ((None, result'), s6)))"
  using assms
  by (auto simp: run_step_reached_def run_step_state_def script_try_def exit_zero_def Let_def
           split: prod.splits sum.splits)

text \<open>
  C7, as the code has it. When staged execution on a node gets to its run step, the
  command it executes there, and whose exit code and output the node's result reports,
  uses the Python interpreter when the remote path has the extension \<open>.py\<close> or the
  content starts with \<open>#!/usr/bin/env python\<close> or \<open>#!/usr/bin/python\<close>; otherwise
  bash when the extension is \<open>.sh\<close> or \<open>.bash\<close>, the content starts with
  \<open>#!/bin/bash\<close> or \<open>#!/usr/bin/bash\<close>, or the content has no shebang; otherwise
  (any other shebang, \<open>#!/bin/sh\<close> included) it is the file itself.
\<close>

theorem interpreter_choice:
  fixes env :: "'w Env" and config :: Config and node :: NodeConfig
    and remote_script_path script_content args :: string and tmo :: int and s :: "'w State"
  defines "ext \<equiv> py_lower (splitext_ext remote_script_path)"
  defines "chosen \<equiv>
             (if ext = ''.py'' \<or> python_shebang script_content
              then ''python3 '' @ remote_script_path @ '' '' @ args
              else if ext = ''.sh'' \<or> ext = ''.bash'' \<or> bash_shebang script_content
                      \<or> \<not> py_startswith script_content ''#!''
              then ''bash '' @ remote_script_path @ '' '' @ args
              else remote_script_path @ '' '' @ args)"
  defines "r \<equiv> fst (execute_script_on_node env config node script_content remote_script_path
                       args tmo s)"
  assumes reached: "run_step_reached env config node script_content remote_script_path s"
  shows "case execute_command env (fst (get_connection env config node s)) chosen tmo
                (run_step_state env config node script_content remote_script_path s) of
           (Inr (code, out, err), s5) \<Rightarrow>
             exit_code r = Some code \<and> stdout r = out \<and> stderr r = err
             \<and> success r = (code = 0)
         | (Inl e, s5) \<Rightarrow>
             exit_code r = None \<and> \<not> success r \<and> error_message r = error_str e"
proof -
  have c: "chosen = script_execute_command remote_script_path script_content args"
    unfolding chosen_def ext_def by (simp add: script_execute_command_cases)
  show ?thesis
    unfolding r_def c execute_script_on_node_def
    by (auto simp: script_try_run_step [OF reached] new_result_def Let_def
             split: prod.splits sum.splits option.splits)
qed

lemma ext_of_examples:
  "py_lower (splitext_ext ''/tmp/job.PY'') = ''.py''"
  "py_lower (splitext_ext ''/tmp/run'') = []"
  by code_simp+

lemma shebang_of_examples:
  "\<not> python_shebang sh_script" "\<not> bash_shebang sh_script" "py_startswith sh_script ''#!''"
  "\<not> python_shebang ''echo hi''" "\<not> bash_shebang ''echo hi''" "\<not> py_startswith ''echo hi'' ''#!''"
  by code_simp+

lemma sim_run_steps:
  "run_step_reached always_up sim_fleet node2 sh_script ''/tmp/job.PY'' sim_state"
  "run_step_reached always_up sim_fleet node2 ''echo hi'' ''/tmp/run'' sim_state"
  "run_step_reached always_up sim_fleet node2 sh_script ''/tmp/run'' sim_state"
  "fst (execute_command always_up (fst (get_connection always_up sim_fleet node2 sim_state))
          ''python3 /tmp/job.PY a'' 600
          (run_step_state always_up sim_fleet node2 sh_script ''/tmp/job.PY'' sim_state))
     = Inr (0, ''python3 /tmp/job.PY a'', [])"
  "fst (execute_command always_up (fst (get_connection always_up sim_fleet node2 sim_state))
          ''bash /tmp/run a'' 600
          (run_step_state always_up sim_fleet node2 ''echo hi'' ''/tmp/run'' sim_state))
     = Inr (0, ''bash /tmp/run a'', [])"
  "fst (execute_command always_up (fst (get_connection always_up sim_fleet node2 sim_state))
          ''/tmp/run a'' 600
          (run_step_state always_up sim_fleet node2 sh_script ''/tmp/run'' sim_state))
     = Inr (0, ''/tmp/run a'', [])"
  by code_simp+

theorem interpreter_choice_witness:
  "run_step_reached always_up sim_fleet node2 sh_script ''/tmp/job.PY'' sim_state
   \<and> stdout (fst (execute_script_on_node always_up sim_fleet node2 sh_script ''/tmp/job.PY''
                    ''a'' 600 sim_state)) = ''python3 /tmp/job.PY a''
   \<and> run_step_reached always_up sim_fleet node2 ''echo hi'' ''/tmp/run'' sim_state
   \<and> stdout (fst (execute_script_on_node always_up sim_fleet node2 ''echo hi'' ''/tmp/run''
                    ''a'' 600 sim_state)) = ''bash /tmp/run a''
   \<and> run_step_reached always_up sim_fleet node2 sh_script ''/tmp/run'' sim_state
   \<and> stdout (fst (execute_script_on_node always_up sim_fleet node2 sh_script ''/tmp/run''
                    ''a'' 600 sim_state)) = ''/tmp/run a''"
proof -
  have 1: "stdout (fst (execute_script_on_node always_up sim_fleet node2 sh_script ''/tmp/job.PY''
                    ''a'' 600 sim_state)) = ''python3 /tmp/job.PY a''"
    using interpreter_choice [OF sim_run_steps(1), of "''a''" 600] sim_run_steps(4)
    by (auto simp: ext_of_examples shebang_of_examples split: prod.splits sum.splits)
  have 2: "stdout (fst (execute_script_on_node always_up sim_fleet node2 ''echo hi'' ''/tmp/run''
                    ''a'' 600 sim_state)) = ''bash /tmp/run a''"
    using interpreter_choice [OF sim_run_steps(2), of "''a''" 600] sim_run_steps(5)
    by (auto simp: ext_of_examples shebang_of_examples split: prod.splits sum.splits)
  have 3: "stdout (fst (execute_script_on_node always_up sim_fleet node2 sh_script ''/tmp/run''
                    ''a'' 600 sim_state)) = ''/tmp/run a''"
    using interpreter_choice [OF sim_run_steps(3), of "''a''" 600] sim_run_steps(6)
    by (auto simp: ext_of_examples shebang_of_examples split: prod.splits sum.splits)
  from 1 2 3 sim_run_steps(1,2,3) show ?thesis by blast
qed

text \<open>
  C7, as the claim has it, fails: a script that starts with the shebang \<open>#!/bin/sh\<close>
  and is staged under a path without extension is not run with bash. The third command
  the node receives is the file itself.
\<close>

theorem sh_shebang_runs_directly:
  "py_startswith sh_script ''#!/bin/sh''
   \<and> splitext_ext ''/tmp/run'' = []
   \<and> world (snd (execute_script_on_node always_up sim_fleet node2
                    sh_script ''/tmp/run'' ''a'' 600 sim_state)) ! 2 = ''/tmp/run a''
   \<and> script_execute_command ''/tmp/run'' sh_script ''a'' \<noteq> ''bash /tmp/run a''"
  by code_simp

lemma split_foo_bar: "py_split_whitespace ''foo bar'' = [''foo'', ''bar'']"
  by code_simp

lemma set_foo_bar_one_line: "CHR 0x0A \<notin> set set_foo_bar"
  by (simp add: set_foo_bar_def)

text \<open>
  C8. For a local script file that exists, \<open>execute_local_script_remotely\<close> with the
  arguments \<open>foo bar\<close> submits the shell-command task whose command is the line
  \<open>set -- "foo" "bar"\<close>, a newline, and the stripped text of the file, so that line
  is the command's first line; with empty arguments it submits the stripped text alone.
\<close>

theorem local_script_positional_parameters:
  assumes "path_exists env (world s) script_path"
    and "read_text env (world s) script_path = Inr text"
  shows "execute_local_script_remotely env config sched script_path ids ''foo bar'' tmo s
           = execute_task env config sched
               \<lparr> task_type = SHELL_COMMAND,
                 command = set_foo_bar @ [CHR 0x0A] @ py_strip text,
                 node_ids = (case ids of None \<Rightarrow> [] | Some l \<Rightarrow> l), timeout = tmo,
                 retry_count = ec_retry_count (execution config),
                 retry_delay = ec_retry_delay (execution config), extra_params = None \<rparr> s
         \<and> takeWhile (\<lambda>c. c \<noteq> CHR 0x0A) (set_foo_bar @ [CHR 0x0A] @ py_strip text) = set_foo_bar
         \<and> execute_local_script_remotely env config sched script_path ids [] tmo s
           = execute_task env config sched
               \<lparr> task_type = SHELL_COMMAND, command = py_strip text,
                 node_ids = (case ids of None \<Rightarrow> [] | Some l \<Rightarrow> l), timeout = tmo,
                 retry_count = ec_retry_count (execution config),
                 retry_delay = ec_retry_delay (execution config), extra_params = None \<rparr> s"
proof -
  have c: "local_script_command text ''foo bar'' = set_foo_bar @ [CHR 0x0A] @ py_strip text"
    by (simp add: local_script_command_def split_foo_bar set_foo_bar_def)
  have e: "local_script_command text [] = py_strip text"
    by (simp add: local_script_command_def)
  have l: "takeWhile (\<lambda>c. c \<noteq> CHR 0x0A) (set_foo_bar @ [CHR 0x0A] @ py_strip text) = set_foo_bar"
    using set_foo_bar_one_line by (simp add: takeWhile_append2 takeWhile_append)
  show ?thesis
    using assms c e l
    by (simp add: execute_local_script_remotely_def execute_shell_command_def)
qed

lemma deploy_script_exists:
  "path_exists always_up (world sim_state) ''/opt/deploy.sh''"
  "read_text always_up (world sim_state) ''/opt/deploy.sh'' = Inr ('' echo $1 $2 '' @ [CHR 0x0A])"
  "py_strip ('' echo $1 $2 '' @ [CHR 0x0A]) = ''echo $1 $2''"
  by (simp_all add: always_up_def sim_env_def py_strip_def isspace_chr_def)

theorem local_script_positional_parameters_witness:
  "path_exists always_up (world sim_state) ''/opt/deploy.sh''
   \<and> read_text always_up (world sim_state) ''/opt/deploy.sh'' = Inr ('' echo $1 $2 '' @ [CHR 0x0A])
   \<and> execute_local_script_remotely always_up sim_fleet (\<lambda>k. 0) ''/opt/deploy.sh'' (Some [2])
        ''foo bar'' 600 sim_state
      = execute_task always_up sim_fleet (\<lambda>k. 0)
          \<lparr> task_type = SHELL_COMMAND,
            command = set_foo_bar @ [CHR 0x0A] @ ''echo $1 $2'',
            node_ids = [2], timeout = 600,
            retry_count = ec_retry_count (execution sim_fleet),
            retry_delay = ec_retry_delay (execution sim_fleet), extra_params = None \<rparr> sim_state"
  using local_script_positional_parameters [OF deploy_script_exists(1) deploy_script_exists(2),
          of sim_fleet "\<lambda>k. 0" "Some [2]" 600]
    deploy_script_exists
  by simp

lemma script_try_node_id:
  "script_try env config node c p a t result s = ((e, r), s') \<Longrightarrow> node_id r = node_id result"
  by (auto simp: script_try_def Let_def split: prod.splits sum.splits if_splits)

lemma execute_script_on_node_id:
  "node_id (fst (execute_script_on_node env config node c p a t s)) = nc_id node"
proof -
  obtain e r s1 where t: "script_try env config node c p a t
      (new_result node SHELL_COMMAND (''run script: '' @ p @ '' '' @ a)) s = ((e, r), s1)"
    by (metis surj_pair)
  from script_try_node_id [OF t] have "node_id r = nc_id node" by (simp add: new_result_def)
  with t show ?thesis
    by (cases e) (simp_all add: execute_script_on_node_def Let_def)
qed

lemma script_state_Cons:
  "script_state env config (n # ns) c p a t (Suc i) s
     = script_state env config ns c p a t i (snd (execute_script_on_node env config n c p a t s))"
  by (induction i) simp_all

lemma script_on_nodes_in_order:
  "script_on_nodes env config ns c p a t s = (rs, s') \<Longrightarrow>
     in_node_order env config ns c p a t s rs s'"
proof (induction ns arbitrary: s rs s')
  case Nil
  then show ?case by (simp add: in_node_order_def)
next
  case (Cons n ns)
  obtain r s1 where ex: "execute_script_on_node env config n c p a t s = (r, s1)"
    by (cases "execute_script_on_node env config n c p a t s")
  obtain rs1 s2 where rest: "script_on_nodes env config ns c p a t s1 = (rs1, s2)"
    by (cases "script_on_nodes env config ns c p a t s1")
  from Cons.prems ex rest have rs: "rs = r # rs1" and s': "s' = s2" by simp_all
  from Cons.IH [OF rest] have ih: "in_node_order env config ns c p a t s1 rs1 s2" .
  have id: "node_id r = nc_id n"
    using execute_script_on_node_id [of env config n c p a t s] ex by simp
  have shift: "script_state env config (n # ns) c p a t (Suc i) s
                 = script_state env config ns c p a t i s1" for i
    using script_state_Cons [of env config n ns c p a t i s] ex by simp
  have "\<forall>i < length (n # ns).
          rs ! i = fst (execute_script_on_node env config ((n # ns) ! i) c p a t
                          (script_state env config (n # ns) c p a t i s))"
  proof (intro allI impI)
    fix i assume i: "i < length (n # ns)"
    show "rs ! i = fst (execute_script_on_node env config ((n # ns) ! i) c p a t
                          (script_state env config (n # ns) c p a t i s))"
    proof (cases i)
      case 0
      then show ?thesis using rs ex by simp
    next
      case (Suc j)
      then have "j < length ns" using i by simp
      then show ?thesis using Suc rs ih shift [of j] by (simp add: in_node_order_def)
    qed
  qed
  moreover have "s' = script_state env config (n # ns) c p a t (length (n # ns)) s"
    using s' ih shift [of "length ns"] by (simp add: in_node_order_def)
  moreover have "length rs = length (n # ns)" "map node_id rs = map nc_id (n # ns)"
    using rs ih id by (simp_all add: in_node_order_def)
  ultimately show ?case unfolding in_node_order_def by blast
qed

text \<open>
  C10. Staged script execution, by \<open>execute_script_content\<close> and by
  \<open>upload_and_execute_script\<close> for a script file that exists, runs the script on the
  resolved target nodes one after another, each node starting in the state the node before
  it left, and returns one TaskResult per node in the order of the nodes. For an explicit
  id list that order is the order of the list, with the ids that the configuration does
  not know dropped.
\<close>

theorem staged_execution_in_node_order:
  fixes config :: Config and ids :: "int list option"
  defines "ns \<equiv> script_target_nodes config ids"
  shows "(\<forall>l. ids = Some l \<longrightarrow>
            map nc_id ns = filter (\<lambda>i. i \<in> nc_id ` set (nodes config)) l)
         \<and> (\<exists>rs s'. execute_script_content env config c ids args tmo script_name s = (Inr rs, s')
               \<and> in_node_order env config ns c (''/tmp/'' @ script_name) args tmo s rs s')
         \<and> (path_exists env (world s) script_path
               \<and> read_text env (world s) script_path = Inr c \<longrightarrow>
             (\<exists>rs s'. upload_and_execute_script env config script_path ids args tmo remote_path s
                         = (Inr rs, s')
                \<and> in_node_order env config ns c (remote_path @ ''/'' @ py_basename script_path)
                     args tmo s rs s'))"
proof (intro conjI allI impI)
  fix l assume "ids = Some l"
  then show "map nc_id ns = filter (\<lambda>i. i \<in> nc_id ` set (nodes config)) l"
    by (simp add: ns_def script_target_nodes_def get_nodes_by_ids_ids)
next
  obtain rs s' where r: "script_on_nodes env config ns c (''/tmp/'' @ script_name) args tmo s = (rs, s')"
    by (cases "script_on_nodes env config ns c (''/tmp/'' @ script_name) args tmo s")
  then have "execute_script_content env config c ids args tmo script_name s = (Inr rs, s')"
    by (simp add: execute_script_content_def ns_def)
  with script_on_nodes_in_order [OF r]
  show "\<exists>rs s'. execute_script_content env config c ids args tmo script_name s = (Inr rs, s')
          \<and> in_node_order env config ns c (''/tmp/'' @ script_name) args tmo s rs s'"
    by blast
next
  assume a: "path_exists env (world s) script_path \<and> read_text env (world s) script_path = Inr c"
  let ?p = "remote_path @ ''/'' @ py_basename script_path"
  obtain rs s' where r: "script_on_nodes env config ns c ?p args tmo s = (rs, s')"
    by (cases "script_on_nodes env config ns c ?p args tmo s")
  then have "upload_and_execute_script env config script_path ids args tmo remote_path s
               = (Inr rs, s')"
    using a by (simp add: upload_and_execute_script_def ns_def)
  with script_on_nodes_in_order [OF r]
  show "\<exists>rs s'. upload_and_execute_script env config script_path ids args tmo remote_path s
                  = (Inr rs, s')
          \<and> in_node_order env config ns c ?p args tmo s rs s'"
    by blast
qed

lemma sim_script_run:
  "map_sum id (map node_id)
     (fst (execute_script_content always_up sim_fleet sh_script (Some [3, 99, 2]) ''a'' 600
             ''run'' sim_state))
     = Inr [3, 2]"
  "connections (snd (execute_script_content always_up sim_fleet sh_script (Some [3, 99, 2]) ''a''
                       600 ''run'' sim_state))
     = [(3, 0), (2, 1)]"
  "map nc_id (script_target_nodes sim_fleet (Some [3, 99, 2])) = [3, 2]"
  by code_simp+

theorem staged_execution_in_node_order_witness:
  "map nc_id (script_target_nodes sim_fleet (Some [3, 99, 2])) = [3, 2]
   \<and> connections (snd (execute_script_content always_up sim_fleet sh_script (Some [3, 99, 2])
                         ''a'' 600 ''run'' sim_state))
      = [(3, 0), (2, 1)]
   \<and> (\<exists>rs s'. execute_script_content always_up sim_fleet sh_script (Some [3, 99, 2]) ''a'' 600
                  ''run'' sim_state = (Inr rs, s')
          \<and> map node_id rs = [3, 2])"
proof -
  from staged_execution_in_node_order
         [where config = sim_fleet and ids = "Some [3, 99, 2]" and env = always_up
            and c = sh_script and args = "''a''" and tmo = 600 and script_name = "''run''"
            and s = sim_state]
  obtain rs s' where
    "execute_script_content always_up sim_fleet sh_script (Some [3, 99, 2]) ''a'' 600
       ''run'' sim_state = (Inr rs, s')"
    "in_node_order always_up sim_fleet (script_target_nodes sim_fleet (Some [3, 99, 2])) sh_script
       (''/tmp/'' @ ''run'') ''a'' 600 sim_state rs s'"
    by blast
  then show ?thesis using sim_script_run(2,3) by (auto simp: in_node_order_def)
qed

end
